theory Spec2Isabelle
  imports Main
begin

section \<open>The document pipeline of \<open>app/message_processor.py\<close>\<close>

text \<open>
  A shallow embedding of the five functions of \<open>src/app/message_processor.py\<close>:
  \<open>process_document\<close>, \<open>read_file_content\<close>, \<open>chunk_content\<close>, \<open>enrich_chunks_with_llm\<close>
  and \<open>store_chunks_in_db\<close>. The coroutines await one call at a time, so each is a
  sequential function here. What the functions do to the outside (log records, file
  reads, calls of the reasoning service, the storage session) is explicit state of type
  \<open>world\<close>; what the outside answers is a parameter of type \<open>env\<close>. A raise is a value
  \<open>Inl e\<close> of a sum type, and every \<open>try\<close>/\<open>except\<close> of the source is a case distinction.
\<close>

subsection \<open>Python strings\<close>

text \<open>
  A Python \<open>str\<close> is a sequence of Unicode code points. A code point is a natural number
  here, so that every string the program can receive is covered; \<open>py\<close> turns an ASCII
  literal into its code points.
\<close>

type_synonym pychar = nat
type_synonym pystr = "pychar list"

definition py :: "string \<Rightarrow> pystr" where
  "py s = map of_char s"

text \<open>
  The characters \<open>str.split()\<close> and \<open>str.strip()\<close> treat as whitespace (CPython's
  \<open>Py_UNICODE_ISSPACE\<close>): U+0009..U+000D, U+001C..U+0020, U+0085, U+00A0, U+1680,
  U+2000..U+200A, U+2028, U+2029, U+202F, U+205F, U+3000.
\<close>

definition is_space :: "pychar \<Rightarrow> bool" where
  "is_space c \<longleftrightarrow>
     (9 \<le> c \<and> c \<le> 13) \<or> (28 \<le> c \<and> c \<le> 32) \<or> c = 133 \<or> c = 160 \<or> c = 5760 \<or>
     (8192 \<le> c \<and> c \<le> 8202) \<or> c = 8232 \<or> c = 8233 \<or> c = 8239 \<or> c = 8287 \<or>
     c = 12288"

text \<open>
  \<open>s.split()\<close>: one scan from the left; \<open>w\<close> is the word being collected. Runs of
  whitespace separate words, and no empty word is produced.
\<close>

fun split_from :: "pystr \<Rightarrow> pystr \<Rightarrow> pystr list" where
  "split_from w [] = (if w = [] then [] else [w])"
| "split_from w (c # cs) =
     (if is_space c then (if w = [] then split_from [] cs else w # split_from [] cs)
      else split_from (w @ [c]) cs)"

definition split_ws :: "pystr \<Rightarrow> pystr list" where
  "split_ws s = split_from [] s"

text \<open>\<open>sep.join(xs)\<close>, \<open>s.strip()\<close> and \<open>s.endswith(suf)\<close>.\<close>

fun join :: "pystr \<Rightarrow> pystr list \<Rightarrow> pystr" where
  "join sep [] = []"
| "join sep [x] = x"
| "join sep (x # y # ys) = x @ sep @ join sep (y # ys)"

definition strip :: "pystr \<Rightarrow> pystr" where
  "strip s = rev (dropWhile is_space (rev (dropWhile is_space s)))"

definition endswith :: "pystr \<Rightarrow> pystr \<Rightarrow> bool" where
  "endswith s suf \<longleftrightarrow> length suf \<le> length s \<and> drop (length s - length suf) s = suf"

text \<open>\<open>s.split(sep)\<close> for a one-character separator: \<open>''a,b''\<close> gives two terms, \<open>''''\<close> one.\<close>

fun split_sep :: "pychar \<Rightarrow> pystr \<Rightarrow> pystr \<Rightarrow> pystr list" where
  "split_sep sep w [] = [w]"
| "split_sep sep w (c # cs) =
     (if c = sep then w # split_sep sep [] cs else split_sep sep (w @ [c]) cs)"

subsection \<open>The chunker\<close>

definition MIN_WORDS :: nat where
  "MIN_WORDS = 100"

text \<open>
  The \<open>for\<close> loop of \<open>chunk_content\<close> (lines 97 to 106) over the words still to read,
  with the three variables of the source as arguments. The first equation is the code
  after the loop.
\<close>

fun chunk_loop :: "pystr list \<Rightarrow> pystr list \<Rightarrow> nat \<Rightarrow> pystr list \<Rightarrow> pystr list" where
  "chunk_loop chunks current_chunk word_count [] =
     (if current_chunk \<noteq> [] then chunks @ [strip (join (py '' '') current_chunk)]
      else chunks)"
| "chunk_loop chunks current_chunk word_count (word # rest) =
     (let current_chunk = current_chunk @ [word];
          word_count = word_count + 1
      in if endswith word (py ''.'') \<and> word_count \<ge> MIN_WORDS
         then chunk_loop (chunks @ [strip (join (py '' '') current_chunk)]) [] 0 rest
         else chunk_loop chunks current_chunk word_count rest)"

definition chunk_content :: "pystr \<Rightarrow> pystr list" where
  "chunk_content content = chunk_loop [] [] 0 (split_ws content)"

text \<open>
  The chunker as section 4.2 of the specification words it, on the word sequence: the
  boundary is the first word at or after the 100-word mark (index \<open>MIN_WORDS - 1\<close>, from
  0) that ends in a full stop; the words up to it are one chunk, and the scan starts
  again behind it; words left without a boundary are the final chunk.
\<close>

definition first_boundary :: "pystr list \<Rightarrow> nat option" where
  "first_boundary ws =
     List.find (\<lambda>j. endswith (ws ! j) (py ''.'')) [MIN_WORDS - 1 ..< length ws]"

function greedy_chunks :: "pystr list \<Rightarrow> pystr list list" where
  "greedy_chunks ws =
     (if ws = [] then []
      else case first_boundary ws of
             None \<Rightarrow> [ws]
           | Some j \<Rightarrow> take (Suc j) ws # greedy_chunks (drop (Suc j) ws))"
  by pat_completeness auto
termination
  by (relation "measure length") auto

declare greedy_chunks.simps [simp del]

text \<open>Auxiliary notions of the proofs: a word of \<open>split\<close>, and a sealed buffer.\<close>

definition is_word :: "pystr \<Rightarrow> bool" where
  "is_word t \<longleftrightarrow> t \<noteq> [] \<and> list_all (\<lambda>c. \<not> is_space c) t"

definition seal :: "pystr list \<Rightarrow> pystr" where
  "seal g = strip (join (py '' '') g)"

definition sealed_in_loop :: "pystr list \<Rightarrow> bool" where
  "sealed_in_loop g \<longleftrightarrow> MIN_WORDS \<le> length g \<and> endswith (last g) (py ''.'')"

subsection \<open>Python values, exceptions, the outside world\<close>

text \<open>
  The values a message, a response of the reasoning service and an enriched chunk are
  made of. A \<open>dict\<close> is an association list read by \<open>map_of\<close> (the first binding of a key
  counts).
\<close>

datatype pyval =
    PyNone
  | PyBool bool
  | PyInt int
  | PyStr pystr
  | PyList "pyval list"
  | PyDict "(pystr \<times> pyval) list"

type_synonym pydict = "(pystr \<times> pyval) list"

text \<open>
  The exceptions of the model are instances of \<open>Exception\<close>, which is what the handlers
  of the source catch (\<open>except Exception\<close>, \<open>except KeyError\<close>, \<open>except SQLAlchemyError\<close>).
\<close>

datatype exn =
    KeyError pystr
  | TypeError
  | AttributeError
  | FileNotFoundError
  | SQLAlchemyError string
  | OtherError string

datatype level = INFO | WARNING | ERROR | EXCEPTION

datatype log_arg = ArgInt int | ArgVal pyval | ArgExn exn

text \<open>
  Modelled from the spec: the \<open>DocumentData\<close> row of \<open>app/models.py\<close>, which is not among
  the sources; its columns are those of the Persisted Record of section 3 and of the
  constructor call at lines 154 to 162. The columns \<open>chunk_content\<close> and \<open>keywords\<close> are the
  fields \<open>chunk_content_col\<close> and \<open>keywords_col\<close>: the first name is the chunker's, the
  second is reserved by Isabelle.
\<close>

record DocumentData =
  chunk_id :: nat
  document_name :: pyval
  role :: pyval
  chunk_number :: int
  chunk_content_col :: pyval
  keywords_col :: pyval
  summary :: pyval

text \<open>
  What the outside answers. \<open>ask_llm\<close> (of \<open>app/utils/llm_chat.py\<close>, not among the
  sources) is a parameter: its first argument is the number of calls made before, so
  that any pattern of outcomes over the calls is one such function. \<open>add_all_fault\<close>
  says whether staging fails, and after how many records; \<open>commit_fault\<close> whether the
  commit fails, given the visible and the staged rows.
\<close>

record env =
  fs_read :: "pyval \<Rightarrow> exn + pystr"
  pdf_pages :: "pystr \<Rightarrow> exn + pystr option list"
  ask_llm :: "nat \<Rightarrow> pystr \<Rightarrow> pystr \<Rightarrow> pyval \<Rightarrow> exn + pyval"
  uuid4 :: "nat \<Rightarrow> nat"
  add_all_fault :: "DocumentData list \<Rightarrow> (nat \<times> exn) option"
  commit_fault :: "DocumentData list \<Rightarrow> DocumentData list \<Rightarrow> exn option"

text \<open>
  What the program did to the outside: the log, the paths it opened, the contexts it
  sent to the reasoning service, the rows visible in the table (\<open>rows\<close>), the rows staged
  in the open transaction (\<open>staged\<close>), and counters of the session calls.
\<close>

record world =
  logged :: "(level \<times> string \<times> log_arg list) list"
  file_reads :: "pyval list"
  llm_calls :: "pystr list"
  uuids_drawn :: nat
  rows :: "DocumentData list"
  staged :: "DocumentData list"
  session_open :: bool
  sessions_opened :: nat
  commit_calls :: nat
  rollback_calls :: nat

definition log_msg :: "level \<Rightarrow> string \<Rightarrow> log_arg list \<Rightarrow> world \<Rightarrow> world" where
  "log_msg lv msg args w = w\<lparr>logged := logged w @ [(lv, msg, args)]\<rparr>"

text \<open>\<open>d[k]\<close> and \<open>d.get(k, default)\<close> on a dict; \<open>v.get(k, default)\<close> and \<open>sep.join(v)\<close> on any value.\<close>

definition dict_item :: "pydict \<Rightarrow> pystr \<Rightarrow> exn + pyval" where
  "dict_item d k = (case map_of d k of None \<Rightarrow> Inl (KeyError k) | Some v \<Rightarrow> Inr v)"

definition dict_get :: "pydict \<Rightarrow> pystr \<Rightarrow> pyval \<Rightarrow> pyval" where
  "dict_get d k dflt = (case map_of d k of None \<Rightarrow> dflt | Some v \<Rightarrow> v)"

fun py_get :: "pyval \<Rightarrow> pystr \<Rightarrow> pyval \<Rightarrow> exn + pyval" where
  "py_get (PyDict d) k dflt = Inr (dict_get d k dflt)"
| "py_get v k dflt = Inl AttributeError"

fun the_strs :: "pyval list \<Rightarrow> exn + pystr list" where
  "the_strs [] = Inr []"
| "the_strs (PyStr s # vs) = (case the_strs vs of Inl e \<Rightarrow> Inl e | Inr ss \<Rightarrow> Inr (s # ss))"
| "the_strs (v # vs) = Inl TypeError"

fun str_join :: "pystr \<Rightarrow> pyval \<Rightarrow> exn + pystr" where
  "str_join sep (PyList vs) = (case the_strs vs of Inl e \<Rightarrow> Inl e | Inr ss \<Rightarrow> Inr (join sep ss))"
| "str_join sep (PyStr s) = Inr (join sep (map (\<lambda>c. [c]) s))"
| "str_join sep (PyDict d) = Inr (join sep (rev (remdups (rev (map fst d)))))"
| "str_join sep v = Inl TypeError"

subsection \<open>The content reader\<close>

text \<open>
  \<open>read_file_content\<close>: \<open>fs_read\<close> stands for opening the path and reading it whole,
  \<open>pdf_pages\<close> for \<open>PdfReader\<close> and \<open>extract_text\<close> on every page (\<open>None\<close> where a page
  has no text). Both handlers log and raise again.
\<close>

definition read_file_content :: "env \<Rightarrow> world \<Rightarrow> pyval \<Rightarrow> (exn + pystr) \<times> world" where
  "read_file_content env w file_path =
     (let w1 = w\<lparr>file_reads := file_reads w @ [file_path]\<rparr>
      in case fs_read env file_path of
           Inl e \<Rightarrow>
             (Inl e,
              if e = FileNotFoundError
              then log_msg ERROR ''File not found'' [ArgVal file_path] w1
              else log_msg ERROR ''Error reading file'' [ArgExn e] w1)
         | Inr data \<Rightarrow>
             (case pdf_pages env data of
                Inl e \<Rightarrow> (Inl e, log_msg ERROR ''Error parsing PDF content'' [ArgExn e] w1)
              | Inr pages \<Rightarrow>
                  (Inr (join [10] (map (\<lambda>t. case t of None \<Rightarrow> [] | Some s \<Rightarrow> s) pages)), w1)))"

subsection \<open>The enricher\<close>

definition question :: pystr where
  "question = py ''Generate 3 keywords and a 1-line summary.''"

definition response_format :: pyval where
  "response_format =
     PyDict [(py ''keywords'', PyList [PyStr (py ''k1''), PyStr (py ''k2''), PyStr (py ''k3'')]),
             (py ''summary'', PyStr (py ''one-line summary''))]"

text \<open>
  The body of the \<open>try\<close> at lines 121 to 133 for the call number \<open>n\<close>: the call itself,
  then the dict built from the response. Any of the four steps can raise.
\<close>

definition enrich_try :: "env \<Rightarrow> nat \<Rightarrow> pystr \<Rightarrow> exn + pydict" where
  "enrich_try env n chunk =
     (case ask_llm env n question chunk response_format of
        Inl e \<Rightarrow> Inl e
      | Inr llm_response \<Rightarrow>
          (case py_get llm_response (py ''keywords'') (PyList []) of
             Inl e \<Rightarrow> Inl e
           | Inr ks \<Rightarrow>
               (case str_join (py '','') ks of
                  Inl e \<Rightarrow> Inl e
                | Inr kw \<Rightarrow>
                    (case py_get llm_response (py ''summary'') (PyStr []) of
                       Inl e \<Rightarrow> Inl e
                     | Inr sm \<Rightarrow>
                         Inr [(py ''content'', PyStr chunk),
                              (py ''keywords'', PyStr kw),
                              (py ''summary'', sm)]))))"

definition fallback :: "pystr \<Rightarrow> pydict" where
  "fallback chunk =
     [(py ''content'', PyStr chunk), (py ''keywords'', PyStr []), (py ''summary'', PyStr [])]"

text \<open>The loop at lines 119 to 140; \<open>i\<close> is the counter of \<open>enumerate(chunks, start=1)\<close>.\<close>

fun enrich_loop :: "env \<Rightarrow> world \<Rightarrow> pydict list \<Rightarrow> nat \<Rightarrow> pystr list \<Rightarrow> pydict list \<times> world" where
  "enrich_loop env w enriched i [] = (enriched, w)"
| "enrich_loop env w enriched i (chunk # rest) =
     (let n = length (llm_calls w);
          w1 = w\<lparr>llm_calls := llm_calls w @ [chunk]\<rparr>
      in case enrich_try env n chunk of
           Inr item \<Rightarrow> enrich_loop env w1 (enriched @ [item]) (i + 1) rest
         | Inl e \<Rightarrow>
             enrich_loop env
               (log_msg ERROR ''LLM enrichment failed for chunk'' [ArgInt (int i), ArgExn e] w1)
               (enriched @ [fallback chunk]) (i + 1) rest)"

definition enrich_chunks_with_llm :: "env \<Rightarrow> world \<Rightarrow> pystr list \<Rightarrow> pydict list \<times> world" where
  "enrich_chunks_with_llm env w chunks = enrich_loop env w [] 1 chunks"

text \<open>The element the loop appends for the call number \<open>n\<close> on \<open>chunk\<close>, in either branch.\<close>

definition enriched_item :: "env \<Rightarrow> nat \<Rightarrow> pystr \<Rightarrow> pydict" where
  "enriched_item env n chunk =
     (case enrich_try env n chunk of Inr item \<Rightarrow> item | Inl e \<Rightarrow> fallback chunk)"

text \<open>
  The number of comma-separated terms of a keywords string: none for the empty string,
  else one more than it has commas.
\<close>

definition comma_terms :: "pystr \<Rightarrow> pystr list" where
  "comma_terms s = (if s = [] then [] else split_sep 44 [] s)"

subsection \<open>The persister\<close>

text \<open>
  Modelled from the spec: \<open>SessionLocal\<close> of \<open>app/database.py\<close>, which is not among the
  sources, and the session it returns (section 4.4 and section 5: a session acquired
  fresh per invocation, one transactional scope, records staged and committed once,
  all of them visible or none). \<open>add_all\<close> may fail after staging some of the records;
  a failed commit makes no row visible; \<open>rollback\<close> and \<open>close\<close> drop what is staged.
\<close>

definition SessionLocal :: "world \<Rightarrow> world" where
  "SessionLocal w =
     w\<lparr>staged := [], session_open := True, sessions_opened := sessions_opened w + 1\<rparr>"

definition db_add_all :: "env \<Rightarrow> world \<Rightarrow> DocumentData list \<Rightarrow> (exn + unit) \<times> world" where
  "db_add_all env w recs =
     (case add_all_fault env recs of
        Some (k, e) \<Rightarrow> (Inl e, w\<lparr>staged := staged w @ take k recs\<rparr>)
      | None \<Rightarrow> (Inr (), w\<lparr>staged := staged w @ recs\<rparr>))"

definition db_commit :: "env \<Rightarrow> world \<Rightarrow> (exn + unit) \<times> world" where
  "db_commit env w =
     (let w1 = w\<lparr>commit_calls := commit_calls w + 1\<rparr>
      in case commit_fault env (rows w) (staged w) of
           Some e \<Rightarrow> (Inl e, w1)
         | None \<Rightarrow> (Inr (), w1\<lparr>rows := rows w @ staged w, staged := []\<rparr>))"

definition db_rollback :: "world \<Rightarrow> world" where
  "db_rollback w = w\<lparr>staged := [], rollback_calls := rollback_calls w + 1\<rparr>"

definition db_close :: "world \<Rightarrow> world" where
  "db_close w = w\<lparr>staged := [], session_open := False\<rparr>"

text \<open>
  The list comprehension at lines 153 to 164 over \<open>enumerate(enriched_chunks)\<close>. The
  arguments of the constructor are evaluated in order: the identifier is drawn before
  \<open>item["content"]\<close> can raise.
\<close>

fun build_records ::
  "env \<Rightarrow> world \<Rightarrow> pyval \<Rightarrow> pyval \<Rightarrow> (nat \<times> pydict) list \<Rightarrow> (exn + DocumentData list) \<times> world"
where
  "build_records env w name rl [] = (Inr [], w)"
| "build_records env w name rl ((i, item) # rest) =
     (let cid = uuid4 env (uuids_drawn w);
          w1 = w\<lparr>uuids_drawn := uuids_drawn w + 1\<rparr>
      in case dict_item item (py ''content'') of
           Inl e \<Rightarrow> (Inl e, w1)
         | Inr c \<Rightarrow>
             (case build_records env w1 name rl rest of
                (Inl e, w2) \<Rightarrow> (Inl e, w2)
              | (Inr recs, w2) \<Rightarrow>
                  (Inr (\<lparr>chunk_id = cid, document_name = name, role = rl,
                         chunk_number = int i + 1, chunk_content_col = c,
                         keywords_col = dict_get item (py ''keywords'') (PyStr []),
                         summary = dict_get item (py ''summary'') (PyStr [])\<rparr> # recs), w2)))"

text \<open>The body of the \<open>try\<close> at lines 153 to 167.\<close>

definition store_try ::
  "env \<Rightarrow> world \<Rightarrow> pydict list \<Rightarrow> pyval \<Rightarrow> pyval \<Rightarrow> (exn + unit) \<times> world"
where
  "store_try env w enriched_chunks name rl =
     (case build_records env w name rl (List.enumerate 0 enriched_chunks) of
        (Inl e, w1) \<Rightarrow> (Inl e, w1)
      | (Inr db_chunks, w1) \<Rightarrow>
          (case db_add_all env w1 db_chunks of
             (Inl e, w2) \<Rightarrow> (Inl e, w2)
           | (Inr u, w2) \<Rightarrow> db_commit env w2))"

fun is_SQLAlchemyError :: "exn \<Rightarrow> bool" where
  "is_SQLAlchemyError (SQLAlchemyError m) = True"
| "is_SQLAlchemyError e = False"

text \<open>
  \<open>store_chunks_in_db\<close>: the session, the \<open>try\<close>, the two handlers (each rolls back,
  logs and raises the exception it caught), and \<open>finally: db.close()\<close>.
\<close>

definition store_chunks_in_db ::
  "env \<Rightarrow> world \<Rightarrow> pydict list \<Rightarrow> pyval \<Rightarrow> pyval \<Rightarrow> (exn + unit) \<times> world"
where
  "store_chunks_in_db env w enriched_chunks name rl =
     (case store_try env (SessionLocal w) enriched_chunks name rl of
        (Inr u, w1) \<Rightarrow> (Inr u, db_close w1)
      | (Inl e, w1) \<Rightarrow>
          (Inl e,
           db_close
             (log_msg EXCEPTION
                (if is_SQLAlchemyError e then ''Database error while storing chunks''
                 else ''Unexpected error during DB insert'')
                [ArgExn e] (db_rollback w1))))"

subsection \<open>The orchestrator\<close>

text \<open>The body of the first \<open>try\<close> of \<open>process_document\<close> (lines 28 to 30).\<close>

definition message_fields :: "pydict \<Rightarrow> exn + pyval \<times> pyval \<times> pyval" where
  "message_fields message =
     (case dict_item message (py ''file_path'') of
        Inl e \<Rightarrow> Inl e
      | Inr file_path \<Rightarrow>
          (case dict_item message (py ''original_name'') of
             Inl e \<Rightarrow> Inl e
           | Inr original_name \<Rightarrow>
               Inr (file_path, original_name,
                    dict_get message (py ''role_required'') (PyStr (py ''Analyst'')))))"

definition process_document :: "env \<Rightarrow> world \<Rightarrow> pydict \<Rightarrow> (exn + unit) \<times> world" where
  "process_document env w message =
     (case message_fields message of
        Inl e \<Rightarrow> (Inr (), log_msg ERROR ''Missing expected key in message'' [ArgExn e] w)
      | Inr (file_path, original_name, rl) \<Rightarrow>
          (let w1 = log_msg INFO ''Started processing'' [ArgVal original_name] w
           in case read_file_content env w1 file_path of
                (Inl e, w2) \<Rightarrow>
                  (Inr (), log_msg EXCEPTION ''Failed to read file content'' [ArgExn e] w2)
              | (Inr content, w2) \<Rightarrow>
                  (let w3 = log_msg INFO ''File content read successfully.'' [] w2;
                       chunks = chunk_content content
                   in if chunks = []
                      then (Inr (),
                            log_msg WARNING ''No chunks were created from the document.'' [] w3)
                      else
                        (let w4 = log_msg INFO ''Chunked content into blocks''
                                    [ArgInt (int (length chunks))] w3;
                             (enriched_chunks, w5) = enrich_chunks_with_llm env w4 chunks;
                             w6 = log_msg INFO ''Enriched chunks with LLM''
                                    [ArgInt (int (length enriched_chunks))] w5
                         in case store_chunks_in_db env w6 enriched_chunks original_name rl of
                              (Inl e, w7) \<Rightarrow>
                                (Inr (),
                                 log_msg ERROR ''Failed to store chunks''
                                   [ArgVal original_name, ArgExn e] w7)
                            | (Inr u, w7) \<Rightarrow>
                                (Inr (),
                                 log_msg INFO ''Completed processing'' [ArgVal original_name]
                                   (log_msg INFO ''Stored chunks in database''
                                      [ArgVal original_name] w7))))))"

subsection \<open>Example inputs\<close>

text \<open>
  A text of 102 words: ninety-nine times \<open>a\<close>, then \<open>b.\<close> as the hundredth word, then
  \<open>c d\<close> after two blanks. \<open>example_first\<close> is its first hundred words.
\<close>

definition example_text :: pystr where
  "example_text = py ''a a a a a a a a a a a a a a a a a a a a a a a a a a a a a a a a a a a a a a a a a a a a a a a a a a a a a a a a a a a a a a a a a a a a a a a a a a a a a a a a a a a a a a a a a a a a a a a a a a a b.  c d''"

definition example_first :: pystr where
  "example_first = py ''a a a a a a a a a a a a a a a a a a a a a a a a a a a a a a a a a a a a a a a a a a a a a a a a a a a a a a a a a a a a a a a a a a a a a a a a a a a a a a a a a a a a a a a a a a a a a a a a a a a b.''"

text \<open>
  A text of 106 words in which the word nearest to the 100-word mark that ends in a full
  stop is the 99th (\<open>x.\<close>), and the first one at or after the mark is the 105th (\<open>y.\<close>).
  \<open>nearest_first\<close> is its first 105 words.
\<close>

definition nearest_text :: pystr where
  "nearest_text = py ''a a a a a a a a a a a a a a a a a a a a a a a a a a a a a a a a a a a a a a a a a a a a a a a a a a a a a a a a a a a a a a a a a a a a a a a a a a a a a a a a a a a a a a a a a a a a a a a a a a x. b b b b b y. z''"

definition nearest_first :: pystr where
  "nearest_first = py ''a a a a a a a a a a a a a a a a a a a a a a a a a a a a a a a a a a a a a a a a a a a a a a a a a a a a a a a a a a a a a a a a a a a a a a a a a a a a a a a a a a a a a a a a a a a a a a a a a a x. b b b b b y.''"

text \<open>
  An empty world, and an outside where everything works: the file is read, the document
  has one page of text and one without, the service answers with three keywords and a
  summary, staging and commit succeed.
\<close>

definition world0 :: world where
  "world0 = \<lparr>logged = [], file_reads = [], llm_calls = [], uuids_drawn = 0, rows = [],
             staged = [], session_open = False, sessions_opened = 0, commit_calls = 0,
             rollback_calls = 0\<rparr>"

definition good_response :: pyval where
  "good_response =
     PyDict [(py ''keywords'', PyList [PyStr (py ''ai''), PyStr (py ''law''), PyStr (py ''tax'')]),
             (py ''summary'', PyStr (py ''A note.''))]"

definition env0 :: env where
  "env0 = \<lparr>fs_read = (\<lambda>p. Inr (py ''%PDF'')),
            pdf_pages = (\<lambda>d. Inr [Some (py ''Hello world.''), None]),
            ask_llm = (\<lambda>n q c f. Inr good_response),
            uuid4 = (\<lambda>n. n),
            add_all_fault = (\<lambda>recs. None),
            commit_fault = (\<lambda>vis st. None)\<rparr>"

text \<open>The service raises on its second call only.\<close>

definition env_second_fails :: env where
  "env_second_fails =
     env0\<lparr>ask_llm := (\<lambda>n q c f. if n = 1 then Inl (OtherError ''timeout'') else Inr good_response)\<rparr>"

text \<open>The service answers with four keywords.\<close>

definition four_keywords :: pyval where
  "four_keywords =
     PyDict [(py ''keywords'',
              PyList [PyStr (py ''k1''), PyStr (py ''k2''), PyStr (py ''k3''), PyStr (py ''k4'')]),
             (py ''summary'', PyStr (py ''A note.''))]"

definition env_four :: env where
  "env_four = env0\<lparr>ask_llm := (\<lambda>n q c f. Inr four_keywords)\<rparr>"

definition three_chunks :: "pystr list" where
  "three_chunks = [py ''One.'', py ''Two.'', py ''Three.'']"

text \<open>The service answers with three keywords, one of which has a comma in it.\<close>

definition env_comma :: env where
  "env_comma =
     env0\<lparr>ask_llm := (\<lambda>n q c f.
        Inr (PyDict [(py ''keywords'',
                      PyList [PyStr (py ''Paris, France''), PyStr (py ''law''), PyStr (py ''tax'')]),
                     (py ''summary'', PyStr (py ''A note.''))]))\<rparr>"

text \<open>
  Two enriched chunks that carry a numbering of their own, an outside where staging fails
  on the last record after the others were staged, and one where the commit fails.
\<close>

definition two_items :: "pydict list" where
  "two_items =
     [[(py ''chunk_number'', PyInt 7), (py ''content'', PyStr (py ''One.'')),
       (py ''keywords'', PyStr (py ''ai,law'')), (py ''summary'', PyStr (py ''First.''))],
      [(py ''chunk_number'', PyInt 3), (py ''content'', PyStr (py ''Two.''))]]"

definition env_last_record_fails :: env where
  "env_last_record_fails =
     env0\<lparr>add_all_fault := (\<lambda>recs. Some (length recs - 1, OtherError ''bad row''))\<rparr>"

definition env_commit_fails :: env where
  "env_commit_fails =
     env0\<lparr>commit_fault := (\<lambda>vis st. Some (SQLAlchemyError ''connection lost''))\<rparr>"

text \<open>
  A message without \<open>role_required\<close>, and one without \<open>file_path\<close>.
\<close>

definition msg_ok :: pydict where
  "msg_ok = [(py ''file_path'', PyStr (py ''/data/doc.pdf'')),
             (py ''original_name'', PyStr (py ''doc.pdf''))]"

definition msg_no_path :: pydict where
  "msg_no_path = [(py ''original_name'', PyStr (py ''doc.pdf'')),
                  (py ''role_required'', PyStr (py ''Admin''))]"

text \<open>
  The run of \<open>process_document\<close> on \<open>msg_ok\<close> where the commit fails: the world after the
  read, the enriched chunks, the world after the enrichment, and the world
  \<open>store_chunks_in_db\<close> leaves when it raises.
\<close>

definition ce_w2 :: world where
  "ce_w2 = world0\<lparr>logged := [(INFO, ''Started processing'', [ArgVal (PyStr (py ''doc.pdf''))])],
                  file_reads := [PyStr (py ''/data/doc.pdf'')]\<rparr>"

definition ce_enriched :: "pydict list" where
  "ce_enriched = [[(py ''content'', PyStr (py ''Hello world.'')),
                   (py ''keywords'', PyStr (py ''ai,law,tax'')),
                   (py ''summary'', PyStr (py ''A note.''))]]"

definition ce_w5 :: world where
  "ce_w5 = ce_w2\<lparr>logged := logged ce_w2 @
                      [(INFO, ''File content read successfully.'', []),
                       (INFO, ''Chunked content into blocks'', [ArgInt 1])],
                 llm_calls := [py ''Hello world.'']\<rparr>"

definition ce_w7 :: world where
  "ce_w7 = ce_w5\<lparr>logged := logged ce_w5 @
                      [(INFO, ''Enriched chunks with LLM'', [ArgInt 1]),
                       (EXCEPTION, ''Database error while storing chunks'',
                        [ArgExn (SQLAlchemyError ''connection lost'')])],
                 uuids_drawn := 1, sessions_opened := 1, commit_calls := 1,
                 rollback_calls := 1\<rparr>"

section \<open>The chunker: words, boundaries, chunks\<close>

lemma space_is_space: "is_space 32"
  by (simp add: is_space_def)

lemma py_space: "py '' '' = [32]"
  by (simp add: py_def)

lemma py_dot: "py ''.'' = [46]"
  by (simp add: py_def)

lemma split_from_words:
  "list_all (\<lambda>c. \<not> is_space c) w \<Longrightarrow> list_all is_word (split_from w s)"
  by (induction s arbitrary: w) (auto simp: is_word_def)

lemma split_ws_words: "list_all is_word (split_ws s)"
  by (simp add: split_ws_def split_from_words)

lemma split_from_append_space:
  "is_space c \<Longrightarrow> split_from w (a @ c # b) = split_from w a @ split_from [] b"
  by (induction a arbitrary: w) auto

lemma split_from_nospace:
  "list_all (\<lambda>c. \<not> is_space c) t \<Longrightarrow> split_from w t = (if w @ t = [] then [] else [w @ t])"
  by (induction t arbitrary: w) auto

lemma split_ws_word: "is_word t \<Longrightarrow> split_ws t = [t]"
  by (simp add: split_ws_def is_word_def split_from_nospace)

lemma split_ws_join_words:
  "list_all is_word ws \<Longrightarrow> split_ws (join [32] ws) = ws"
proof (induction "[32::nat]" ws rule: join.induct)
  case 1
  then show ?case by (simp add: split_ws_def)
next
  case (2 x)
  then show ?case by (simp add: split_ws_word)
next
  case (3 x y ys)
  have "split_ws (x @ 32 # join [32] (y # ys)) = split_ws x @ split_ws (join [32] (y # ys))"
    unfolding split_ws_def by (rule split_from_append_space) (rule space_is_space)
  with 3 show ?case by (simp add: split_ws_word)
qed

lemma split_ws_join:
  "split_ws (join [32] cs) = concat (map split_ws cs)"
proof (induction "[32::nat]" cs rule: join.induct)
  case 1
  then show ?case by (simp add: split_ws_def)
next
  case (2 x)
  then show ?case by simp
next
  case (3 x y ys)
  have "split_ws (x @ 32 # join [32] (y # ys)) = split_ws x @ split_ws (join [32] (y # ys))"
    unfolding split_ws_def by (rule split_from_append_space) (rule space_is_space)
  with 3 show ?case by simp
qed

lemma join_words_nonempty:
  "ws \<noteq> [] \<Longrightarrow> list_all is_word ws \<Longrightarrow> join sep ws \<noteq> []"
  by (induction sep ws rule: join.induct) (auto simp: is_word_def)

lemma hd_join_words:
  "ws \<noteq> [] \<Longrightarrow> list_all is_word ws \<Longrightarrow> hd (join sep ws) = hd (hd ws)"
  by (induction sep ws rule: join.induct) (auto simp: is_word_def)

lemma last_join_words:
  "ws \<noteq> [] \<Longrightarrow> list_all is_word ws \<Longrightarrow> last (join sep ws) = last (last ws)"
proof (induction sep ws rule: join.induct)
  case (3 sep x y ys)
  then have "join sep (y # ys) \<noteq> []" by (intro join_words_nonempty) auto
  with 3 show ?case by simp
qed auto

lemma strip_id:
  "s \<noteq> [] \<Longrightarrow> \<not> is_space (hd s) \<Longrightarrow> \<not> is_space (last s) \<Longrightarrow> strip s = s"
proof -
  assume a: "s \<noteq> []" "\<not> is_space (hd s)" "\<not> is_space (last s)"
  then have "dropWhile is_space s = s" by (cases s) auto
  moreover from a have "dropWhile is_space (rev s) = rev s"
    by (cases "rev s") (auto simp: last_rev hd_rev[symmetric] dest: arg_cong[where f=hd])
  ultimately show ?thesis by (simp add: strip_def)
qed

lemma word_ends: "is_word t \<Longrightarrow> \<not> is_space (hd t) \<and> \<not> is_space (last t)"
  by (cases t) (auto simp: is_word_def list_all_iff)

lemma seal_words:
  assumes "g \<noteq> []" "list_all is_word g"
  shows "seal g = join [32] g" "seal g \<noteq> []" "\<not> is_space (hd (seal g))"
    "\<not> is_space (last (seal g))" "split_ws (seal g) = g"
proof -
  have w: "is_word (hd g)" "is_word (last g)"
    using assms by (auto simp: list_all_iff)
  have j: "join [32] g \<noteq> []" "\<not> is_space (hd (join [32] g))" "\<not> is_space (last (join [32] g))"
    using assms w by (simp_all add: join_words_nonempty hd_join_words last_join_words word_ends)
  then show s: "seal g = join [32] g" by (simp add: seal_def py_space strip_id)
  from j s show "seal g \<noteq> []" "\<not> is_space (hd (seal g))" "\<not> is_space (last (seal g))"
    by simp_all
  from s assms show "split_ws (seal g) = g" by (simp add: split_ws_join_words)
qed

lemma first_boundary_None:
  "first_boundary ws = None \<longleftrightarrow>
     (\<forall>j. MIN_WORDS - 1 \<le> j \<and> j < length ws \<longrightarrow> \<not> endswith (ws ! j) (py ''.''))"
  by (auto simp: first_boundary_def find_None_iff)

lemma first_boundary_Some:
  "first_boundary ws = Some j \<longleftrightarrow>
     MIN_WORDS - 1 \<le> j \<and> j < length ws \<and> endswith (ws ! j) (py ''.'') \<and>
     (\<forall>k. MIN_WORDS - 1 \<le> k \<and> k < j \<longrightarrow> \<not> endswith (ws ! k) (py ''.''))"
proof
  assume "first_boundary ws = Some j"
  then obtain i where i: "i < length [MIN_WORDS - 1 ..< length ws]"
      "endswith (ws ! ([MIN_WORDS - 1 ..< length ws] ! i)) (py ''.'')"
      "j = [MIN_WORDS - 1 ..< length ws] ! i"
      "\<forall>k<i. \<not> endswith (ws ! ([MIN_WORDS - 1 ..< length ws] ! k)) (py ''.'')"
    unfolding first_boundary_def find_Some_iff by blast
  have j: "j = MIN_WORDS - 1 + i" using i(1,3) by simp
  have "\<not> endswith (ws ! k) (py ''.'')" if "MIN_WORDS - 1 \<le> k" "k < j" for k
  proof -
    from that j have "k - (MIN_WORDS - 1) < i" by arith
    with i(4) have "\<not> endswith (ws ! ([MIN_WORDS - 1 ..< length ws] ! (k - (MIN_WORDS - 1)))) (py ''.'')"
      by blast
    moreover have "[MIN_WORDS - 1 ..< length ws] ! (k - (MIN_WORDS - 1)) = k"
      using that j i(1) by simp
    ultimately show ?thesis by simp
  qed
  with i j show "MIN_WORDS - 1 \<le> j \<and> j < length ws \<and> endswith (ws ! j) (py ''.'') \<and>
     (\<forall>k. MIN_WORDS - 1 \<le> k \<and> k < j \<longrightarrow> \<not> endswith (ws ! k) (py ''.''))"
    by auto
next
  assume a: "MIN_WORDS - 1 \<le> j \<and> j < length ws \<and> endswith (ws ! j) (py ''.'') \<and>
     (\<forall>k. MIN_WORDS - 1 \<le> k \<and> k < j \<longrightarrow> \<not> endswith (ws ! k) (py ''.''))"
  show "first_boundary ws = Some j"
    unfolding first_boundary_def find_Some_iff
  proof (intro exI[of _ "j - (MIN_WORDS - 1)"] conjI allI impI)
    show "j - (MIN_WORDS - 1) < length [MIN_WORDS - 1 ..< length ws]" using a by auto
    show "endswith (ws ! ([MIN_WORDS - 1 ..< length ws] ! (j - (MIN_WORDS - 1)))) (py ''.'')"
      using a by auto
    show "j = [MIN_WORDS - 1 ..< length ws] ! (j - (MIN_WORDS - 1))" using a by auto
  next
    fix k assume "k < j - (MIN_WORDS - 1)"
    with a show "\<not> endswith (ws ! ([MIN_WORDS - 1 ..< length ws] ! k)) (py ''.'')"
      by auto
  qed
qed

lemma chunk_loop_greedy:
  "(\<forall>j. MIN_WORDS - 1 \<le> j \<and> j < length cur \<longrightarrow> \<not> endswith (cur ! j) (py ''.'')) \<Longrightarrow>
   chunk_loop chunks cur (length cur) ws = chunks @ map seal (greedy_chunks (cur @ ws))"
proof (induction ws arbitrary: chunks cur)
  case Nil
  then have "first_boundary cur = None" by (simp add: first_boundary_None)
  then show ?case by (simp add: greedy_chunks.simps[of cur] seal_def)
next
  case (Cons w ws)
  let ?cur = "cur @ [w]"
  show ?case
  proof (cases "endswith w (py ''.'') \<and> MIN_WORDS \<le> length cur + 1")
    case True
    have "first_boundary (cur @ w # ws) = Some (length cur)"
      unfolding first_boundary_Some using True Cons.prems by (auto simp: nth_append)
    then have "greedy_chunks (cur @ w # ws) = ?cur # greedy_chunks ws"
      by (simp add: greedy_chunks.simps[of "cur @ w # ws"])
    moreover have "chunk_loop (chunks @ [seal ?cur]) [] (length ([]::pystr list)) ws
        = (chunks @ [seal ?cur]) @ map seal (greedy_chunks ([] @ ws))"
      by (rule Cons.IH) simp
    ultimately show ?thesis using True by (simp add: seal_def)
  next
    case False
    have "\<forall>j. MIN_WORDS - 1 \<le> j \<and> j < length ?cur \<longrightarrow> \<not> endswith (?cur ! j) (py ''.'')"
    proof (intro allI impI)
      fix j assume j: "MIN_WORDS - 1 \<le> j \<and> j < length ?cur"
      show "\<not> endswith (?cur ! j) (py ''.'')"
      proof (cases "j < length cur")
        case True
        with j Cons.prems show ?thesis by (simp add: nth_append)
      next
        case False
        with j have "j = length cur" by simp
        with j \<open>\<not> (endswith w (py ''.'') \<and> MIN_WORDS \<le> length cur + 1)\<close> show ?thesis
          by (auto simp: nth_append)
      qed
    qed
    then have "chunk_loop chunks ?cur (length ?cur) ws = chunks @ map seal (greedy_chunks (?cur @ ws))"
      by (rule Cons.IH)
    with False show ?thesis by (auto simp: Let_def)
  qed
qed

lemma chunk_content_seal:
  "chunk_content content = map seal (greedy_chunks (split_ws content))"
  using chunk_loop_greedy[of "[]" "[]" "split_ws content"] by (simp add: chunk_content_def)

lemma greedy_chunks_Nil: "greedy_chunks [] = []"
  by (simp add: greedy_chunks.simps)

lemma greedy_chunks_concat: "concat (greedy_chunks ws) = ws"
proof (induction ws rule: greedy_chunks.induct)
  case (1 ws)
  show ?case
  proof (cases "ws = []")
    case True
    then show ?thesis by (simp add: greedy_chunks_Nil)
  next
    case False
    then show ?thesis using 1
      by (cases "first_boundary ws") (simp_all add: greedy_chunks.simps[of ws])
  qed
qed

lemma greedy_chunks_nonempty: "g \<in> set (greedy_chunks ws) \<Longrightarrow> g \<noteq> []"
proof (induction ws rule: greedy_chunks.induct)
  case (1 ws)
  show ?case
  proof (cases "ws = []")
    case True
    with 1 show ?thesis by (simp add: greedy_chunks_Nil)
  next
    case False
    then show ?thesis using 1
      by (cases "first_boundary ws") (auto simp add: greedy_chunks.simps[of ws])
  qed
qed

lemma greedy_chunks_subset: "g \<in> set (greedy_chunks ws) \<Longrightarrow> set g \<subseteq> set ws"
proof -
  assume "g \<in> set (greedy_chunks ws)"
  then have "set g \<subseteq> set (concat (greedy_chunks ws))" by auto
  then show ?thesis by (simp add: greedy_chunks_concat)
qed

lemma greedy_chunks_words:
  "list_all is_word ws \<Longrightarrow> g \<in> set (greedy_chunks ws) \<Longrightarrow> g \<noteq> [] \<and> list_all is_word g"
  using greedy_chunks_subset[of g ws] greedy_chunks_nonempty[of g ws]
  by (auto simp: list_all_iff)

lemma greedy_chunks_butlast:
  "list_all sealed_in_loop (butlast (greedy_chunks ws))"
proof (induction ws rule: greedy_chunks.induct)
  case (1 ws)
  show ?case
  proof (cases "ws = []")
    case True
    then show ?thesis by (simp add: greedy_chunks_Nil)
  next
    case False
    show ?thesis
    proof (cases "first_boundary ws")
      case None
      with False show ?thesis by (simp add: greedy_chunks.simps[of ws])
    next
      case (Some j)
      then have j: "MIN_WORDS - 1 \<le> j" "j < length ws" "endswith (ws ! j) (py ''.'')"
        by (simp_all add: first_boundary_Some)
      then have "last (take (Suc j) ws) = ws ! j"
        by (simp add: take_Suc_conv_app_nth)
      moreover have "MIN_WORDS \<le> length (take (Suc j) ws)"
        using j(1,2) by simp
      ultimately have "sealed_in_loop (take (Suc j) ws)"
        using j(3) by (simp add: sealed_in_loop_def)
      with 1 False Some show ?thesis by (simp add: greedy_chunks.simps[of ws])
    qed
  qed
qed

lemma map_seal_words:
  assumes "list_all is_word ws"
  shows "map seal (greedy_chunks ws) = map (join [32]) (greedy_chunks ws)"
proof (rule map_cong[OF refl])
  fix g assume "g \<in> set (greedy_chunks ws)"
  with assms have "g \<noteq> [] \<and> list_all is_word g" by (rule greedy_chunks_words)
  then show "seal g = join [32] g" by (simp add: seal_words(1))
qed

lemma split_seal_words:
  assumes "list_all is_word ws"
  shows "map split_ws (map seal (greedy_chunks ws)) = greedy_chunks ws"
proof -
  have "map (\<lambda>g. split_ws (seal g)) (greedy_chunks ws) = map (\<lambda>g. g) (greedy_chunks ws)"
  proof (rule map_cong[OF refl])
    fix g assume "g \<in> set (greedy_chunks ws)"
    with assms have "g \<noteq> [] \<and> list_all is_word g" by (rule greedy_chunks_words)
    then show "split_ws (seal g) = g" by (simp add: seal_words(5))
  qed
  then show ?thesis by (simp add: comp_def)
qed

lemma example_chunks: "chunk_content example_text = [example_first, py ''c d'']"
  by (simp add: example_text_def example_first_def py_def split_ws_def is_space_def
      chunk_content_def MIN_WORDS_def endswith_def strip_def)

lemma chunks_concat_fuses:
  "length (split_ws example_text) = 102 \<and>
   length (split_ws (concat (chunk_content example_text))) = 101"
proof -
  have "length (split_ws example_text) = 102"
    by (simp add: example_text_def py_def split_ws_def is_space_def)
  moreover have "length (split_ws (concat [example_first, py ''c d''])) = 101"
    by (simp add: example_first_def py_def split_ws_def is_space_def)
  ultimately show ?thesis by (simp only: example_chunks)
qed

text \<open>
  Claim C2. For every input string, the chunks of \<open>chunk_content\<close>, joined in order with
  single spaces (the concatenation section 8 of the specification describes) and split
  on whitespace again, are exactly the words of the input in their order: no word is
  dropped, duplicated or moved. The separator matters: put end to end with nothing
  between them, the last word of a chunk and the first of the next become one word
  (\<open>chunks_concat_fuses\<close>).
\<close>

theorem chunks_rejoin_tokens:
  "split_ws (join (py '' '') (chunk_content content)) = split_ws content"
proof -
  have w: "list_all is_word (split_ws content)" by (rule split_ws_words)
  have "split_ws (join [32] (chunk_content content))
      = concat (map split_ws (map seal (greedy_chunks (split_ws content))))"
    by (simp only: split_ws_join chunk_content_seal)
  also have "\<dots> = concat (greedy_chunks (split_ws content))"
    by (simp only: split_seal_words[OF w])
  also have "\<dots> = split_ws content" by (rule greedy_chunks_concat)
  finally show ?thesis by (simp add: py_space)
qed

theorem chunks_rejoin_tokens_witness:
  "split_ws (join (py '' '') [example_first, py ''c d'']) = split_ws example_text"
  using chunks_rejoin_tokens[of example_text] by (simp only: example_chunks)

lemma nearest_chunks: "chunk_content nearest_text = [nearest_first, py ''z'']"
  by (simp add: nearest_text_def nearest_first_def py_def split_ws_def is_space_def
      chunk_content_def MIN_WORDS_def endswith_def strip_def)

lemma nearest_boundary: "first_boundary (split_ws nearest_text) = Some 104"
  by (simp add: nearest_text_def py_def split_ws_def is_space_def first_boundary_def
      MIN_WORDS_def endswith_def upt_rec_numeral)

text \<open>
  Claim C4. \<open>chunk_content\<close> is the greedy forward scan: its chunks are those of
  \<open>greedy_chunks\<close> on the words of the input, each joined with single spaces. By
  \<open>first_boundary_Some\<close> and \<open>first_boundary_None\<close> a boundary is the first word at or
  after the 100-word mark that ends in a full stop, not the one nearest to 100 (in
  \<open>nearest_text\<close> the 105th word, not the 99th), and what is left when no such word
  remains is one final chunk whatever its size or end.
\<close>

theorem chunk_content_greedy:
  "chunk_content content = map (join (py '' '')) (greedy_chunks (split_ws content))"
  by (simp only: chunk_content_seal map_seal_words[OF split_ws_words] py_space)

theorem chunk_content_greedy_witness:
  "first_boundary (split_ws nearest_text) = Some 104 \<and>
   map (join (py '' '')) (greedy_chunks (split_ws nearest_text)) = [nearest_first, py ''z'']"
  using chunk_content_greedy[of nearest_text] nearest_boundary by (simp only: nearest_chunks)

lemma endswith_dot: "endswith s (py ''.'') \<longleftrightarrow> s \<noteq> [] \<and> last s = 46"
  by (cases s rule: rev_cases) (auto simp: endswith_def py_dot)

lemma seal_endswith_dot:
  assumes "g \<noteq> []" "list_all is_word g" "endswith (last g) (py ''.'')"
  shows "endswith (seal g) (py ''.'')"
  using assms by (simp add: endswith_dot seal_words(1) join_words_nonempty last_join_words)

lemma split_ws_blank: "list_all is_space s \<Longrightarrow> split_ws s = []"
  unfolding split_ws_def by (induction s) auto

lemma chunk_content_blank: "list_all is_space content \<Longrightarrow> chunk_content content = []"
  by (simp add: chunk_content_def split_ws_blank)

text \<open>
  Claim C3. For every input string, every chunk of \<open>chunk_content\<close> but the last has
  at least 100 words, and its last word, hence the chunk, ends with a full stop. Nothing
  is said of the last chunk.
\<close>

theorem nonfinal_chunks_sealed:
  assumes "Suc i < length (chunk_content content)"
  shows "100 \<le> length (split_ws (chunk_content content ! i)) \<and>
         endswith (last (split_ws (chunk_content content ! i))) (py ''.'') \<and>
         endswith (chunk_content content ! i) (py ''.'')"
proof -
  let ?gs = "greedy_chunks (split_ws content)"
  have i: "Suc i < length ?gs" using assms by (simp add: chunk_content_seal)
  then have c: "chunk_content content ! i = seal (?gs ! i)"
    by (simp add: chunk_content_seal)
  have "?gs ! i \<in> set ?gs" using i by simp
  then have g: "?gs ! i \<noteq> [] \<and> list_all is_word (?gs ! i)"
    using split_ws_words by (rule greedy_chunks_words[rotated])
  have "butlast ?gs ! i \<in> set (butlast ?gs)" using i by simp
  moreover have "butlast ?gs ! i = ?gs ! i" using i by (simp add: nth_butlast)
  ultimately have "sealed_in_loop (?gs ! i)"
    using greedy_chunks_butlast[of "split_ws content"] by (simp add: list_all_iff)
  then have s: "MIN_WORDS \<le> length (?gs ! i)" "endswith (last (?gs ! i)) (py ''.'')"
    by (simp_all add: sealed_in_loop_def)
  from g have "split_ws (seal (?gs ! i)) = ?gs ! i" by (simp add: seal_words(5))
  moreover from g s(2) have "endswith (seal (?gs ! i)) (py ''.'')"
    by (simp add: seal_endswith_dot)
  ultimately show ?thesis using s c by (simp add: MIN_WORDS_def)
qed

lemma example_first_words: "length (split_ws example_first) = 100"
  by (simp add: example_first_def py_def split_ws_def is_space_def)

theorem nonfinal_chunks_sealed_witness:
  "Suc 0 < length (chunk_content example_text) \<and>
   chunk_content example_text ! 0 = example_first \<and>
   length (split_ws example_first) = 100 \<and>
   endswith (last (split_ws example_first)) (py ''.'') \<and>
   endswith example_first (py ''.'')"
proof -
  have h: "Suc 0 < length (chunk_content example_text)" by (simp add: example_chunks)
  from nonfinal_chunks_sealed[OF h] h show ?thesis
    by (simp add: example_chunks example_first_words)
qed

text \<open>
  Claim C10. For every input string, the empty and the blank ones included (there
  \<open>chunk_content_blank\<close> gives no chunk at all), every chunk of \<open>chunk_content\<close> is a
  non-empty string that neither starts nor ends with whitespace.
\<close>

theorem chunks_nonempty_trimmed:
  assumes "c \<in> set (chunk_content content)"
  shows "c \<noteq> [] \<and> \<not> is_space (hd c) \<and> \<not> is_space (last c) \<and> strip c = c"
proof -
  from assms obtain g where g: "g \<in> set (greedy_chunks (split_ws content))" "c = seal g"
    by (auto simp: chunk_content_seal)
  from split_ws_words g(1) have w: "g \<noteq> [] \<and> list_all is_word g"
    by (rule greedy_chunks_words)
  then have "c \<noteq> []" "\<not> is_space (hd c)" "\<not> is_space (last c)"
    using g(2) by (simp_all add: seal_words(2,3,4))
  then show ?thesis by (simp add: strip_id)
qed

theorem chunks_nonempty_trimmed_witness:
  "py ''c d'' \<in> set (chunk_content example_text) \<and> py ''c d'' \<noteq> [] \<and>
   \<not> is_space (hd (py ''c d'')) \<and> \<not> is_space (last (py ''c d'')) \<and>
   strip (py ''c d'') = py ''c d''"
proof -
  have h: "py ''c d'' \<in> set (chunk_content example_text)" by (simp add: example_chunks)
  from chunks_nonempty_trimmed[OF h] h show ?thesis by simp
qed

section \<open>The enricher\<close>

lemma llm_calls_log_msg: "llm_calls (log_msg lv msg args w) = llm_calls w"
  by (simp add: log_msg_def)

lemma enrich_loop_fst:
  "fst (enrich_loop env w enriched i chunks) =
     enriched @ map (\<lambda>(n, c). enriched_item env n c) (List.enumerate (length (llm_calls w)) chunks)"
proof (induction chunks arbitrary: w enriched i)
  case Nil
  then show ?case by simp
next
  case (Cons c cs)
  show ?case
    by (cases "enrich_try env (length (llm_calls w)) c")
       (simp_all add: Let_def Cons.IH enriched_item_def llm_calls_log_msg)
qed


lemma enrich_fst:
  "fst (enrich_chunks_with_llm env w chunks) =
     map (\<lambda>(n, c). enriched_item env n c) (List.enumerate (length (llm_calls w)) chunks)"
  by (simp add: enrich_chunks_with_llm_def enrich_loop_fst)

lemma enrich_nth:
  "k < length chunks \<Longrightarrow>
   fst (enrich_chunks_with_llm env w chunks) ! k =
     enriched_item env (length (llm_calls w) + k) (chunks ! k)"
  by (simp add: enrich_fst nth_enumerate_eq)








lemma enrich_second_fails_result:
  "fst (enrich_chunks_with_llm env_second_fails world0 three_chunks) =
     [[(py ''content'', PyStr (py ''One.'')), (py ''keywords'', PyStr (py ''ai,law,tax'')),
       (py ''summary'', PyStr (py ''A note.''))],
      [(py ''content'', PyStr (py ''Two.'')), (py ''keywords'', PyStr []),
       (py ''summary'', PyStr [])],
      [(py ''content'', PyStr (py ''Three.'')), (py ''keywords'', PyStr (py ''ai,law,tax'')),
       (py ''summary'', PyStr (py ''A note.''))]]"
  by (simp add: enrich_chunks_with_llm_def three_chunks_def world0_def env_second_fails_def
      env0_def enrich_try_def good_response_def fallback_def log_msg_def dict_get_def py_def)

section \<open>The keywords string\<close>

lemma split_sep_none: "sep \<notin> set t \<Longrightarrow> split_sep sep w t = [w @ t]"
  by (induction t arbitrary: w) auto

lemma split_sep_first:
  "sep \<notin> set t \<Longrightarrow> split_sep sep w (t @ sep # r) = (w @ t) # split_sep sep [] r"
  by (induction t arbitrary: w) auto

lemma split_sep_join:
  "ks \<noteq> [] \<Longrightarrow> list_all (\<lambda>k. sep \<notin> set k) ks \<Longrightarrow> split_sep sep [] (join [sep] ks) = ks"
proof (induction "[sep]" ks rule: join.induct)
  case 1
  then show ?case by simp
next
  case (2 x)
  then show ?case by (simp add: split_sep_none)
next
  case (3 x y ys)
  then show ?case by (simp add: split_sep_first)
qed

lemma py_comma: "py '','' = [44]"
  by (simp add: py_def)

lemma comma_terms_join:
  "list_all (\<lambda>k. 44 \<notin> set k) ks \<Longrightarrow> length (comma_terms (join (py '','') ks)) \<le> length ks"
  by (cases "ks = []") (simp_all add: comma_terms_def py_comma split_sep_join)

lemma the_strs_map: "the_strs (map PyStr ks) = Inr ks"
  by (induction ks) simp_all

text \<open>
  Claim C9 says that the keywords string never has more than three comma-separated
  terms. The enricher joins whatever list the service returns and truncates nothing:
  with a successful answer of four keywords the string has four terms. With an answer
  of three keywords, one of which has a comma in it, it has four as well
  (\<open>keywords_comma_inside\<close>).
\<close>

theorem keywords_four_terms:
  "ask_llm env_four 0 question (py ''Some text.'') response_format = Inr four_keywords \<and>
   fst (enrich_chunks_with_llm env_four world0 [py ''Some text.'']) =
     [[(py ''content'', PyStr (py ''Some text.'')),
       (py ''keywords'', PyStr (py ''k1,k2,k3,k4'')),
       (py ''summary'', PyStr (py ''A note.''))]] \<and>
   comma_terms (py ''k1,k2,k3,k4'') = [py ''k1'', py ''k2'', py ''k3'', py ''k4''] \<and>
   \<not> length (comma_terms (py ''k1,k2,k3,k4'')) \<le> 3"
  by (simp add: enrich_chunks_with_llm_def world0_def env_four_def env0_def enrich_try_def
      four_keywords_def dict_get_def comma_terms_def py_def)

lemma keywords_comma_inside:
  "fst (enrich_chunks_with_llm env_comma world0 [py ''Some text.'']) =
     [[(py ''content'', PyStr (py ''Some text.'')),
       (py ''keywords'', PyStr (py ''Paris, France,law,tax'')),
       (py ''summary'', PyStr (py ''A note.''))]] \<and>
   length (comma_terms (py ''Paris, France,law,tax'')) = 4"
  by (simp add: enrich_chunks_with_llm_def world0_def env_comma_def env0_def enrich_try_def
      dict_get_def comma_terms_def py_def)

lemma split_sep_append:
  "split_sep sep w (a @ sep # b) = split_sep sep w a @ split_sep sep [] b"
  by (induction a arbitrary: w) auto

lemma split_sep_join_terms:
  "ks \<noteq> [] \<Longrightarrow> split_sep sep [] (join [sep] ks) = concat (map (split_sep sep []) ks)"
proof (induction "[sep]" ks rule: join.induct)
  case 1
  then show ?case by simp
next
  case (2 x)
  then show ?case by simp
next
  case (3 x y ys)
  then show ?case by (simp add: split_sep_append)
qed

lemma comma_terms_join_exact:
  "comma_terms (join (py '','') ks) =
     (if join (py '','') ks = [] then [] else concat (map (split_sep 44 []) ks))"
proof (cases "ks = []")
  case True
  then show ?thesis by (simp add: comma_terms_def)
next
  case False
  then show ?thesis by (simp add: comma_terms_def py_comma split_sep_join_terms)
qed

lemma enrich_try_dict:
  "ask_llm env n question chunk response_format = Inr (PyDict d) \<Longrightarrow>
   enrich_try env n chunk =
     (case str_join (py '','') (dict_get d (py ''keywords'') (PyList [])) of
        Inl e \<Rightarrow> Inl e
      | Inr kw \<Rightarrow>
          Inr [(py ''content'', PyStr chunk), (py ''keywords'', PyStr kw),
               (py ''summary'', dict_get d (py ''summary'') (PyStr []))])"
  by (simp add: enrich_try_def split: sum.splits)

lemma keywords_string_value:
  "fst (enrich_chunks_with_llm
          (env0\<lparr>ask_llm := (\<lambda>n q c f. Inr (PyDict [(py ''keywords'', PyStr (py ''tax,law''))]))\<rparr>)
          world0 [py ''Some text.'']) =
     [[(py ''content'', PyStr (py ''Some text.'')),
       (py ''keywords'', PyStr (py ''t,a,x,,,l,a,w'')),
       (py ''summary'', PyStr [])]]"
  by (simp add: enrich_chunks_with_llm_def world0_def env0_def enrich_try_def dict_get_def py_def)

text \<open>
  Claim C9, amended. For every chunk and every successful answer that is a dict, the
  enricher truncates nothing: the element it returns for the chunk has as \<open>keywords\<close> the
  value of the answer's \<open>keywords\<close> key joined with commas, the empty string when the key
  is missing; where the value cannot be joined the attempt has failed, and the element
  is the fallback with empty keywords. When the value is a list of strings, the
  comma-separated terms of the field are the terms of the keywords, in order. So the
  field has at most three terms when the answer has at most three keywords and none of
  them has a comma in it; it can have more otherwise, and a value that is one string is
  joined character by character (\<open>keywords_string_value\<close>).
\<close>

theorem keywords_joined:
  assumes "k < length chunks"
    and "ask_llm env (length (llm_calls w) + k) question (chunks ! k) response_format
           = Inr (PyDict d)"
  shows "fst (enrich_chunks_with_llm env w chunks) ! k =
           (case str_join (py '','') (dict_get d (py ''keywords'') (PyList [])) of
              Inl e \<Rightarrow> fallback (chunks ! k)
            | Inr kw \<Rightarrow>
                [(py ''content'', PyStr (chunks ! k)), (py ''keywords'', PyStr kw),
                 (py ''summary'', dict_get d (py ''summary'') (PyStr []))]) \<and>
         (map_of d (py ''keywords'') = None \<longrightarrow>
            str_join (py '','') (dict_get d (py ''keywords'') (PyList [])) = Inr []) \<and>
         (\<forall>ks. map_of d (py ''keywords'') = Some (PyList (map PyStr ks)) \<longrightarrow>
            str_join (py '','') (dict_get d (py ''keywords'') (PyList []))
              = Inr (join (py '','') ks) \<and>
            comma_terms (join (py '','') ks) =
              (if join (py '','') ks = [] then [] else concat (map (split_sep 44 []) ks)) \<and>
            (length ks \<le> 3 \<and> list_all (\<lambda>t. 44 \<notin> set t) ks \<longrightarrow>
               length (comma_terms (join (py '','') ks)) \<le> 3))"
proof (intro conjI allI impI)
  show "fst (enrich_chunks_with_llm env w chunks) ! k =
           (case str_join (py '','') (dict_get d (py ''keywords'') (PyList [])) of
              Inl e \<Rightarrow> fallback (chunks ! k)
            | Inr kw \<Rightarrow>
                [(py ''content'', PyStr (chunks ! k)), (py ''keywords'', PyStr kw),
                 (py ''summary'', dict_get d (py ''summary'') (PyStr []))])"
    using assms(1) enrich_try_dict[OF assms(2)]
    by (simp add: enrich_nth enriched_item_def split: sum.splits)
next
  assume "map_of d (py ''keywords'') = None"
  then show "str_join (py '','') (dict_get d (py ''keywords'') (PyList [])) = Inr []"
    by (simp add: dict_get_def)
next
  fix ks assume "map_of d (py ''keywords'') = Some (PyList (map PyStr ks))"
  then show "str_join (py '','') (dict_get d (py ''keywords'') (PyList []))
      = Inr (join (py '','') ks)"
    by (simp add: dict_get_def the_strs_map)
next
  fix ks :: "pystr list"
  show "comma_terms (join (py '','') ks) =
      (if join (py '','') ks = [] then [] else concat (map (split_sep 44 []) ks))"
    by (rule comma_terms_join_exact)
next
  fix ks :: "pystr list" assume "length ks \<le> 3 \<and> list_all (\<lambda>t. 44 \<notin> set t) ks"
  then show "length (comma_terms (join (py '','') ks)) \<le> 3"
    using comma_terms_join[of ks] by simp
qed

theorem keywords_joined_witness:
  "ask_llm env0 (length (llm_calls world0) + 0) question ([py ''Some text.''] ! 0) response_format
     = Inr good_response \<and>
   fst (enrich_chunks_with_llm env0 world0 [py ''Some text.'']) ! 0 =
     [(py ''content'', PyStr (py ''Some text.'')),
      (py ''keywords'', PyStr (py ''ai,law,tax'')),
      (py ''summary'', PyStr (py ''A note.''))] \<and>
   comma_terms (py ''ai,law,tax'') = [py ''ai'', py ''law'', py ''tax''] \<and>
   length (comma_terms (py ''ai,law,tax'')) \<le> 3"
proof -
  let ?d = "[(py ''keywords'', PyList [PyStr (py ''ai''), PyStr (py ''law''), PyStr (py ''tax'')]),
             (py ''summary'', PyStr (py ''A note.''))]"
  let ?ks = "[py ''ai'', py ''law'', py ''tax'']"
  have k: "0 < length [py ''Some text.'']" by simp
  have a: "ask_llm env0 (length (llm_calls world0) + 0) question ([py ''Some text.''] ! 0)
      response_format = Inr (PyDict ?d)"
    by (simp add: env0_def good_response_def)
  have m: "map_of ?d (py ''keywords'') = Some (PyList (map PyStr ?ks))" by simp
  have c: "length ?ks \<le> 3 \<and> list_all (\<lambda>t. 44 \<notin> set t) ?ks" by (simp add: py_def)
  have j: "join (py '','') ?ks = py ''ai,law,tax''" by (simp add: py_def)
  have s: "dict_get ?d (py ''summary'') (PyStr []) = PyStr (py ''A note.'')"
    by (simp add: dict_get_def py_def)
  have n: "py ''ai,law,tax'' \<noteq> []" by (simp add: py_def)
  have sp: "split_sep 44 [] (py ''ai'') @ split_sep 44 [] (py ''law'') @ split_sep 44 [] (py ''tax'')
      = ?ks"
    by (simp add: py_def)
  note t = keywords_joined[OF k a]
  from t[THEN conjunct2, THEN conjunct2, rule_format, OF m]
  have 1: "str_join (py '','') (dict_get ?d (py ''keywords'') (PyList [])) = Inr (py ''ai,law,tax'')"
    and 2: "comma_terms (py ''ai,law,tax'') = ?ks"
    and 3: "length (comma_terms (py ''ai,law,tax'')) \<le> 3"
    using c unfolding j by (simp_all add: n sp del: split_sep.simps)
  from t[THEN conjunct1] have 4: "fst (enrich_chunks_with_llm env0 world0 [py ''Some text.'']) ! 0 =
     [(py ''content'', PyStr (py ''Some text.'')),
      (py ''keywords'', PyStr (py ''ai,law,tax'')),
      (py ''summary'', PyStr (py ''A note.''))]"
    unfolding 1 s by simp
  from a 2 3 4 show ?thesis by (simp add: good_response_def)
qed

section \<open>The persister\<close>

lemma build_records_Cons:
  "build_records env w name rl ((i, item) # rest) =
     (case map_of item (py ''content'') of
        None \<Rightarrow> (Inl (KeyError (py ''content'')), w\<lparr>uuids_drawn := uuids_drawn w + 1\<rparr>)
      | Some c \<Rightarrow>
          (case build_records env (w\<lparr>uuids_drawn := uuids_drawn w + 1\<rparr>) name rl rest of
             (Inl e, w2) \<Rightarrow> (Inl e, w2)
           | (Inr recs, w2) \<Rightarrow>
               (Inr (\<lparr>chunk_id = uuid4 env (uuids_drawn w), document_name = name, role = rl,
                      chunk_number = int i + 1, chunk_content_col = c,
                      keywords_col = dict_get item (py ''keywords'') (PyStr []),
                      summary = dict_get item (py ''summary'') (PyStr [])\<rparr> # recs), w2)))"
  by (simp add: Let_def dict_item_def split: option.splits)

lemma build_records_world:
  "\<exists>n. snd (build_records env w name rl xs) = w\<lparr>uuids_drawn := n\<rparr>"
proof (induction xs arbitrary: w)
  case Nil
  have "snd (build_records env w name rl []) = w\<lparr>uuids_drawn := uuids_drawn w\<rparr>" by simp
  then show ?case by (rule exI)
next
  case (Cons x xs)
  obtain i item where x: "x = (i, item)" by (cases x)
  let ?w1 = "w\<lparr>uuids_drawn := uuids_drawn w + 1\<rparr>"
  obtain r w2 where b: "build_records env ?w1 name rl xs = (r, w2)" by (cases "build_records env ?w1 name rl xs")
  from Cons.IH[of ?w1] b obtain n where n: "w2 = ?w1\<lparr>uuids_drawn := n\<rparr>" by auto
  show ?case
  proof (cases "map_of item (py ''content'')")
    case None
    then have "snd (build_records env w name rl (x # xs)) = w\<lparr>uuids_drawn := uuids_drawn w + 1\<rparr>"
      by (simp only: x build_records_Cons option.case snd_conv)
    then show ?thesis by (rule exI)
  next
    case (Some c)
    have "snd (build_records env w name rl (x # xs)) = w2"
      by (cases r) (simp_all only: x build_records_Cons Some option.case b prod.case sum.case snd_conv)
    also have "w2 = w\<lparr>uuids_drawn := n\<rparr>" by (simp add: n)
    finally show ?thesis by (rule exI)
  qed
qed

lemma build_records_recs:
  "build_records env w name rl xs = (Inr recs, w') \<Longrightarrow>
   length recs = length xs \<and>
   map chunk_number recs = map (\<lambda>x. int (fst x) + 1) xs \<and>
   map (\<lambda>r. Some (chunk_content_col r)) recs = map (\<lambda>x. map_of (snd x) (py ''content'')) xs \<and>
   map keywords_col recs = map (\<lambda>x. dict_get (snd x) (py ''keywords'') (PyStr [])) xs \<and>
   map summary recs = map (\<lambda>x. dict_get (snd x) (py ''summary'') (PyStr [])) xs \<and>
   list_all (\<lambda>r. role r = rl \<and> document_name r = name) recs"
proof (induction xs arbitrary: w recs w')
  case Nil
  then show ?case by simp
next
  case (Cons x xs)
  obtain i item where x: "x = (i, item)" by (cases x)
  let ?w1 = "w\<lparr>uuids_drawn := uuids_drawn w + 1\<rparr>"
  obtain r w2 where b: "build_records env ?w1 name rl xs = (r, w2)"
    by (cases "build_records env ?w1 name rl xs")
  from Cons.prems obtain c where c: "map_of item (py ''content'') = Some c"
    by (cases "map_of item (py ''content'')") (simp_all only: x build_records_Cons option.case, simp)
  from Cons.prems obtain rest where r: "r = Inr rest"
    by (cases r) (simp_all only: x build_records_Cons c option.case b prod.case sum.case, simp)
  from Cons.prems have recs: "recs = \<lparr>chunk_id = uuid4 env (uuids_drawn w), document_name = name,
        role = rl, chunk_number = int i + 1, chunk_content_col = c,
        keywords_col = dict_get item (py ''keywords'') (PyStr []),
        summary = dict_get item (py ''summary'') (PyStr [])\<rparr> # rest"
    by (simp only: x build_records_Cons c option.case b r prod.case sum.case) simp
  from Cons.IH[OF b[unfolded r]] show ?case by (simp add: recs x c)
qed

lemma build_records_total:
  "list_all (\<lambda>x. map_of (snd x) (py ''content'') \<noteq> None) xs \<Longrightarrow>
   \<exists>recs. fst (build_records env w name rl xs) = Inr recs"
proof (induction xs arbitrary: w)
  case Nil
  then show ?case by simp
next
  case (Cons x xs)
  obtain i item where x: "x = (i, item)" by (cases x)
  let ?w1 = "w\<lparr>uuids_drawn := uuids_drawn w + 1\<rparr>"
  from Cons.prems obtain c where c: "map_of item (py ''content'') = Some c" by (auto simp: x)
  from Cons.prems have "list_all (\<lambda>x. map_of (snd x) (py ''content'') \<noteq> None) xs" by simp
  from Cons.IH[OF this, of ?w1]
  obtain rest where "fst (build_records env ?w1 name rl xs) = Inr rest"
    by blast
  then obtain w2 where b: "build_records env ?w1 name rl xs = (Inr rest, w2)"
    by (cases "build_records env ?w1 name rl xs") simp
  show ?case
    by (simp only: x build_records_Cons c option.case b prod.case sum.case fst_conv) blast
qed

lemma list_all_snd_enumerate:
  "list_all (\<lambda>x. Q (snd x)) (List.enumerate n xs) = list_all Q xs"
proof -
  have "list_all Q (map snd (List.enumerate n xs)) = list_all (\<lambda>x. Q (snd x)) (List.enumerate n xs)"
    by (simp only: list.pred_map comp_def)
  then show ?thesis by simp
qed

lemma build_records_numbering:
  assumes "list_all (\<lambda>item. map_of item (py ''content'') \<noteq> None) enriched_chunks"
  shows "\<exists>recs w'. build_records env w name rl (List.enumerate 0 enriched_chunks) = (Inr recs, w') \<and>
           length recs = length enriched_chunks \<and>
           (\<forall>i<length enriched_chunks.
              chunk_number (recs ! i) = int i + 1 \<and>
              Some (chunk_content_col (recs ! i)) = map_of (enriched_chunks ! i) (py ''content'') \<and>
              keywords_col (recs ! i) = dict_get (enriched_chunks ! i) (py ''keywords'') (PyStr []) \<and>
              summary (recs ! i) = dict_get (enriched_chunks ! i) (py ''summary'') (PyStr []) \<and>
              document_name (recs ! i) = name \<and> role (recs ! i) = rl)"
proof -
  let ?xs = "List.enumerate 0 enriched_chunks"
  have "list_all (\<lambda>x. map_of (snd x) (py ''content'') \<noteq> None) ?xs"
    using assms
      list_all_snd_enumerate[of "\<lambda>item. map_of item (py ''content'') \<noteq> None" 0 enriched_chunks]
    by simp
  then obtain recs where recs: "fst (build_records env w name rl ?xs) = Inr recs"
    using build_records_total by blast
  then obtain w' where b: "build_records env w name rl ?xs = (Inr recs, w')"
    by (cases "build_records env w name rl ?xs") simp
  note p = build_records_recs[OF b]
  have len: "length recs = length enriched_chunks" using p by simp
  have "chunk_number (recs ! i) = int i + 1 \<and>
      Some (chunk_content_col (recs ! i)) = map_of (enriched_chunks ! i) (py ''content'') \<and>
      keywords_col (recs ! i) = dict_get (enriched_chunks ! i) (py ''keywords'') (PyStr []) \<and>
      summary (recs ! i) = dict_get (enriched_chunks ! i) (py ''summary'') (PyStr []) \<and>
      document_name (recs ! i) = name \<and> role (recs ! i) = rl"
    if i: "i < length enriched_chunks" for i
  proof -
    have e: "?xs ! i = (i, enriched_chunks ! i)" using i by (simp add: nth_enumerate_eq)
    have il: "i < length ?xs" "i < length recs" using i len by simp_all
    have "chunk_number (recs ! i) = map chunk_number recs ! i" using il by simp
    also have "\<dots> = map (\<lambda>x. int (fst x) + 1) ?xs ! i" using p by simp
    also have "\<dots> = int i + 1" using il(1) e by (simp only: nth_map fst_conv)
    finally have 1: "chunk_number (recs ! i) = int i + 1" .
    have "Some (chunk_content_col (recs ! i)) = map (\<lambda>r. Some (chunk_content_col r)) recs ! i"
      using il by simp
    also have "\<dots> = map (\<lambda>x. map_of (snd x) (py ''content'')) ?xs ! i" using p by simp
    also have "\<dots> = map_of (enriched_chunks ! i) (py ''content'')"
      using il(1) e by (simp only: nth_map snd_conv)
    finally have 2: "Some (chunk_content_col (recs ! i)) = map_of (enriched_chunks ! i) (py ''content'')" .
    have "keywords_col (recs ! i) = map keywords_col recs ! i" using il by simp
    also have "\<dots> = map (\<lambda>x. dict_get (snd x) (py ''keywords'') (PyStr [])) ?xs ! i" using p by simp
    also have "\<dots> = dict_get (enriched_chunks ! i) (py ''keywords'') (PyStr [])"
      using il(1) e by (simp only: nth_map snd_conv)
    finally have 3: "keywords_col (recs ! i) = dict_get (enriched_chunks ! i) (py ''keywords'') (PyStr [])" .
    have "summary (recs ! i) = map summary recs ! i" using il by simp
    also have "\<dots> = map (\<lambda>x. dict_get (snd x) (py ''summary'') (PyStr [])) ?xs ! i" using p by simp
    also have "\<dots> = dict_get (enriched_chunks ! i) (py ''summary'') (PyStr [])"
      using il(1) e by (simp only: nth_map snd_conv)
    finally have 4: "summary (recs ! i) = dict_get (enriched_chunks ! i) (py ''summary'') (PyStr [])" .
    from p il(2) have 5: "document_name (recs ! i) = name \<and> role (recs ! i) = rl"
      by (simp add: list_all_length)
    from 1 2 3 4 5 show ?thesis by simp
  qed
  with b len show ?thesis by blast
qed

lemma two_items_records:
  "fst (build_records env0 world0 (PyStr (py ''doc.pdf'')) (PyStr (py ''Analyst''))
          (List.enumerate 0 two_items)) =
     Inr [\<lparr>chunk_id = 0, document_name = PyStr (py ''doc.pdf''), role = PyStr (py ''Analyst''),
           chunk_number = 1, chunk_content_col = PyStr (py ''One.''),
           keywords_col = PyStr (py ''ai,law''), summary = PyStr (py ''First.'')\<rparr>,
          \<lparr>chunk_id = 1, document_name = PyStr (py ''doc.pdf''), role = PyStr (py ''Analyst''),
           chunk_number = 2, chunk_content_col = PyStr (py ''Two.''),
           keywords_col = PyStr [], summary = PyStr []\<rparr>]"
  by (simp add: two_items_def env0_def world0_def Let_def dict_item_def dict_get_def py_def)

lemma store_cases:
  fixes env w enriched_chunks name rl
  defines "w0 \<equiv> SessionLocal w"
  defines "xs \<equiv> List.enumerate 0 enriched_chunks"
  obtains
    (build_fails) e n where
      "build_records env w0 name rl xs = (Inl e, w0\<lparr>uuids_drawn := n\<rparr>)"
      "store_try env w0 enriched_chunks name rl = (Inl e, w0\<lparr>uuids_drawn := n\<rparr>)"
  | (add_fails) recs n k e where
      "build_records env w0 name rl xs = (Inr recs, w0\<lparr>uuids_drawn := n\<rparr>)"
      "add_all_fault env recs = Some (k, e)"
      "store_try env w0 enriched_chunks name rl =
         (Inl e, w0\<lparr>uuids_drawn := n, staged := take k recs\<rparr>)"
  | (commit_fails) recs n e where
      "build_records env w0 name rl xs = (Inr recs, w0\<lparr>uuids_drawn := n\<rparr>)"
      "add_all_fault env recs = None"
      "commit_fault env (rows w) recs = Some e"
      "store_try env w0 enriched_chunks name rl =
         (Inl e, w0\<lparr>uuids_drawn := n, staged := recs, commit_calls := commit_calls w + 1\<rparr>)"
  | (committed) recs n where
      "build_records env w0 name rl xs = (Inr recs, w0\<lparr>uuids_drawn := n\<rparr>)"
      "add_all_fault env recs = None"
      "commit_fault env (rows w) recs = None"
      "store_try env w0 enriched_chunks name rl =
         (Inr (), w0\<lparr>uuids_drawn := n, staged := [], commit_calls := commit_calls w + 1,
                    rows := rows w @ recs\<rparr>)"
proof -
  obtain r w1 where b: "build_records env w0 name rl xs = (r, w1)"
    by (cases "build_records env w0 name rl xs")
  from build_records_world[of env w0 name rl xs] b obtain n where w1: "w1 = w0\<lparr>uuids_drawn := n\<rparr>"
    by auto
  have f: "staged w0 = []" "rows w0 = rows w" "commit_calls w0 = commit_calls w"
    by (simp_all add: w0_def SessionLocal_def)
  show thesis
  proof (cases r)
    case (Inl e)
    with b w1 show ?thesis
      by (intro build_fails[of e n]) (simp_all add: store_try_def xs_def[symmetric])
  next
    case (Inr recs)
    note r = this
    show ?thesis
    proof (cases "add_all_fault env recs")
      case (Some ke)
      obtain k e where ke: "ke = (k, e)" by (cases ke)
      from b w1 r Some ke f show ?thesis
        by (intro add_fails[of recs n k e])
           (simp_all add: store_try_def xs_def[symmetric] db_add_all_def)
    next
      case None
      note a = this
      show ?thesis
      proof (cases "commit_fault env (rows w) recs")
        case (Some e)
        from b w1 r a Some f show ?thesis
          by (intro commit_fails[of recs n e])
             (simp_all add: store_try_def xs_def[symmetric] db_add_all_def db_commit_def Let_def)
      next
        case None
        from b w1 r a None f show ?thesis
          by (intro committed[of recs n])
             (simp_all add: store_try_def xs_def[symmetric] db_add_all_def db_commit_def Let_def)
      qed
    qed
  qed
qed

text \<open>
  Claim C5. For every list of enriched chunks, document name and role, and every
  outside: \<open>store_chunks_in_db\<close> raises exactly what the body of its \<open>try\<close> raised, be it
  in building the records, in staging them or in the commit; then the rows visible are
  those visible before, and the transaction was rolled back. Otherwise all \<open>N\<close> records
  are visible, behind the rows that were. Either way nothing is left staged, the session
  is closed, and the commit was attempted once at most.
\<close>

theorem store_all_or_nothing:
  "fst (store_chunks_in_db env w enriched_chunks name rl) =
     fst (store_try env (SessionLocal w) enriched_chunks name rl) \<and>
   staged (snd (store_chunks_in_db env w enriched_chunks name rl)) = [] \<and>
   \<not> session_open (snd (store_chunks_in_db env w enriched_chunks name rl)) \<and>
   commit_calls (snd (store_chunks_in_db env w enriched_chunks name rl)) \<le> commit_calls w + 1 \<and>
   (case fst (store_chunks_in_db env w enriched_chunks name rl) of
      Inl e \<Rightarrow>
        rows (snd (store_chunks_in_db env w enriched_chunks name rl)) = rows w \<and>
        rollback_calls (snd (store_chunks_in_db env w enriched_chunks name rl)) =
          rollback_calls w + 1
    | Inr u \<Rightarrow>
        (\<exists>recs. fst (build_records env (SessionLocal w) name rl
                       (List.enumerate 0 enriched_chunks)) = Inr recs \<and>
                length recs = length enriched_chunks \<and>
                rows (snd (store_chunks_in_db env w enriched_chunks name rl)) = rows w @ recs) \<and>
        rollback_calls (snd (store_chunks_in_db env w enriched_chunks name rl)) =
          rollback_calls w)"
proof (cases rule: store_cases[where env=env and w=w and enriched_chunks=enriched_chunks
    and name=name and rl=rl])
  case (build_fails e n)
  then show ?thesis
    by (simp add: store_chunks_in_db_def db_close_def db_rollback_def log_msg_def SessionLocal_def)
next
  case (add_fails recs n k e)
  then show ?thesis
    by (simp add: store_chunks_in_db_def db_close_def db_rollback_def log_msg_def SessionLocal_def)
next
  case (commit_fails recs n e)
  then show ?thesis
    by (simp add: store_chunks_in_db_def db_close_def db_rollback_def log_msg_def SessionLocal_def)
next
  case (committed recs n)
  from build_records_recs[OF committed(1)] have "length recs = length enriched_chunks" by simp
  with committed show ?thesis
    by (simp add: store_chunks_in_db_def db_close_def SessionLocal_def)
qed

lemma store_last_record_fails:
  "store_chunks_in_db env_last_record_fails world0 two_items (PyStr (py ''doc.pdf''))
     (PyStr (py ''Analyst'')) =
   (Inl (OtherError ''bad row''),
    world0\<lparr>logged := [(EXCEPTION, ''Unexpected error during DB insert'',
                          [ArgExn (OtherError ''bad row'')])],
            uuids_drawn := 2, sessions_opened := 1, rollback_calls := 1\<rparr>)"
  by (simp add: store_chunks_in_db_def store_try_def two_items_def env_last_record_fails_def
      env0_def world0_def SessionLocal_def db_add_all_def db_close_def db_rollback_def
      log_msg_def Let_def dict_item_def dict_get_def py_def)

theorem store_all_or_nothing_witness:
  "fst (store_chunks_in_db env_last_record_fails world0 two_items (PyStr (py ''doc.pdf''))
          (PyStr (py ''Analyst''))) = Inl (OtherError ''bad row'') \<and>
   fst (store_try env_last_record_fails (SessionLocal world0) two_items (PyStr (py ''doc.pdf''))
          (PyStr (py ''Analyst''))) = Inl (OtherError ''bad row'') \<and>
   rows (snd (store_chunks_in_db env_last_record_fails world0 two_items (PyStr (py ''doc.pdf''))
          (PyStr (py ''Analyst'')))) = [] \<and>
   rollback_calls (snd (store_chunks_in_db env_last_record_fails world0 two_items
          (PyStr (py ''doc.pdf'')) (PyStr (py ''Analyst'')))) = 1"
proof -
  have e: "fst (store_chunks_in_db env_last_record_fails world0 two_items (PyStr (py ''doc.pdf''))
          (PyStr (py ''Analyst''))) = Inl (OtherError ''bad row'')"
    by (simp add: store_last_record_fails)
  have w: "rows world0 = []" "rollback_calls world0 = 0" by (simp_all add: world0_def)
  from store_all_or_nothing[of env_last_record_fails world0 two_items "PyStr (py ''doc.pdf'')"
      "PyStr (py ''Analyst'')"]
  show ?thesis unfolding e w by simp
qed

lemma store_commits_all:
  "store_chunks_in_db env0 world0 two_items (PyStr (py ''doc.pdf'')) (PyStr (py ''Analyst'')) =
   (Inr (),
    world0\<lparr>uuids_drawn := 2, sessions_opened := 1, commit_calls := 1,
            rows := [\<lparr>chunk_id = 0, document_name = PyStr (py ''doc.pdf''),
                      role = PyStr (py ''Analyst''), chunk_number = 1,
                      chunk_content_col = PyStr (py ''One.''),
                      keywords_col = PyStr (py ''ai,law''), summary = PyStr (py ''First.'')\<rparr>,
                     \<lparr>chunk_id = 1, document_name = PyStr (py ''doc.pdf''),
                      role = PyStr (py ''Analyst''), chunk_number = 2,
                      chunk_content_col = PyStr (py ''Two.''),
                      keywords_col = PyStr [], summary = PyStr []\<rparr>]\<rparr>)"
  by (simp add: store_chunks_in_db_def store_try_def two_items_def
      env0_def world0_def SessionLocal_def db_add_all_def db_commit_def db_close_def
      Let_def dict_item_def dict_get_def py_def)

lemma store_rows:
  "\<exists>recs. rows (snd (store_chunks_in_db env w enriched_chunks name rl)) = rows w @ recs \<and>
          list_all (\<lambda>r. role r = rl \<and> document_name r = name) recs"
proof (cases rule: store_cases[where env=env and w=w and enriched_chunks=enriched_chunks
    and name=name and rl=rl])
  case (build_fails e n)
  then have "rows (snd (store_chunks_in_db env w enriched_chunks name rl)) = rows w @ []"
    by (simp add: store_chunks_in_db_def db_close_def db_rollback_def log_msg_def SessionLocal_def)
  then show ?thesis by (intro exI[of _ "[]"]) simp
next
  case (add_fails recs n k e)
  then have "rows (snd (store_chunks_in_db env w enriched_chunks name rl)) = rows w @ []"
    by (simp add: store_chunks_in_db_def db_close_def db_rollback_def log_msg_def SessionLocal_def)
  then show ?thesis by (intro exI[of _ "[]"]) simp
next
  case (commit_fails recs n e)
  then have "rows (snd (store_chunks_in_db env w enriched_chunks name rl)) = rows w @ []"
    by (simp add: store_chunks_in_db_def db_close_def db_rollback_def log_msg_def SessionLocal_def)
  then show ?thesis by (intro exI[of _ "[]"]) simp
next
  case (committed recs n)
  from build_records_recs[OF committed(1)]
  have "list_all (\<lambda>r. role r = rl \<and> document_name r = name) recs" by simp
  moreover from committed
  have "rows (snd (store_chunks_in_db env w enriched_chunks name rl)) = rows w @ recs"
    by (simp add: store_chunks_in_db_def db_close_def SessionLocal_def)
  ultimately show ?thesis by blast
qed

text \<open>
  Claim C8. For every list of \<open>N\<close> enriched chunks handed to \<open>store_chunks_in_db\<close> (dicts
  with a \<open>content\<close> key; whatever else they carry, a numbering of their own included, is
  not read) there are \<open>N\<close> records in the order of the input, the record at index \<open>i\<close>
  from 0 with \<open>chunk_number\<close> \<open>i + 1\<close>, the position from 1, and the content, keywords and
  summary of the chunk at that index, which are the records \<open>store_chunks_in_db\<close> works
  with: it stages and commits them, and they are the rows it appends when both go
  through; when staging or the commit fails on them, it raises that failure and adds no
  row.
\<close>

theorem chunk_number_is_position:
  assumes "list_all (\<lambda>item. map_of item (py ''content'') \<noteq> None) enriched_chunks"
  shows "\<exists>recs. length recs = length enriched_chunks \<and>
           (\<forall>i<length enriched_chunks.
              chunk_number (recs ! i) = int i + 1 \<and>
              Some (chunk_content_col (recs ! i)) = map_of (enriched_chunks ! i) (py ''content'') \<and>
              keywords_col (recs ! i) = dict_get (enriched_chunks ! i) (py ''keywords'') (PyStr []) \<and>
              summary (recs ! i) = dict_get (enriched_chunks ! i) (py ''summary'') (PyStr []) \<and>
              document_name (recs ! i) = name \<and> role (recs ! i) = rl) \<and>
           (case add_all_fault env recs of
              Some (k, e) \<Rightarrow>
                fst (store_chunks_in_db env w enriched_chunks name rl) = Inl e \<and>
                rows (snd (store_chunks_in_db env w enriched_chunks name rl)) = rows w
            | None \<Rightarrow>
                (case commit_fault env (rows w) recs of
                   Some e \<Rightarrow>
                     fst (store_chunks_in_db env w enriched_chunks name rl) = Inl e \<and>
                     rows (snd (store_chunks_in_db env w enriched_chunks name rl)) = rows w
                 | None \<Rightarrow>
                     fst (store_chunks_in_db env w enriched_chunks name rl) = Inr () \<and>
                     rows (snd (store_chunks_in_db env w enriched_chunks name rl)) =
                       rows w @ recs))"
proof -
  from build_records_numbering[OF assms, of env "SessionLocal w" name rl]
  obtain recs w' where
    b: "build_records env (SessionLocal w) name rl (List.enumerate 0 enriched_chunks) = (Inr recs, w')"
    and len: "length recs = length enriched_chunks"
    and num: "\<forall>i<length enriched_chunks.
              chunk_number (recs ! i) = int i + 1 \<and>
              Some (chunk_content_col (recs ! i)) = map_of (enriched_chunks ! i) (py ''content'') \<and>
              keywords_col (recs ! i) = dict_get (enriched_chunks ! i) (py ''keywords'') (PyStr []) \<and>
              summary (recs ! i) = dict_get (enriched_chunks ! i) (py ''summary'') (PyStr []) \<and>
              document_name (recs ! i) = name \<and> role (recs ! i) = rl"
    by blast
  have "case add_all_fault env recs of
              Some (k, e) \<Rightarrow>
                fst (store_chunks_in_db env w enriched_chunks name rl) = Inl e \<and>
                rows (snd (store_chunks_in_db env w enriched_chunks name rl)) = rows w
            | None \<Rightarrow>
                (case commit_fault env (rows w) recs of
                   Some e \<Rightarrow>
                     fst (store_chunks_in_db env w enriched_chunks name rl) = Inl e \<and>
                     rows (snd (store_chunks_in_db env w enriched_chunks name rl)) = rows w
                 | None \<Rightarrow>
                     fst (store_chunks_in_db env w enriched_chunks name rl) = Inr () \<and>
                     rows (snd (store_chunks_in_db env w enriched_chunks name rl)) =
                       rows w @ recs)"
  proof (cases rule: store_cases[where env=env and w=w and enriched_chunks=enriched_chunks
      and name=name and rl=rl])
    case (build_fails e n)
    with b show ?thesis by simp
  next
    case (add_fails recs' n k e)
    with b have "recs' = recs" by simp
    with add_fails show ?thesis
      by (simp add: store_chunks_in_db_def db_close_def db_rollback_def log_msg_def SessionLocal_def)
  next
    case (commit_fails recs' n e)
    with b have "recs' = recs" by simp
    with commit_fails show ?thesis
      by (simp add: store_chunks_in_db_def db_close_def db_rollback_def log_msg_def SessionLocal_def)
  next
    case (committed recs' n)
    with b have "recs' = recs" by simp
    with committed show ?thesis
      by (simp add: store_chunks_in_db_def db_close_def SessionLocal_def)
  qed
  with len num show ?thesis by blast
qed

theorem chunk_number_is_position_witness:
  "list_all (\<lambda>item. map_of item (py ''content'') \<noteq> None) two_items \<and>
   fst (store_chunks_in_db env0 world0 two_items (PyStr (py ''doc.pdf''))
          (PyStr (py ''Analyst''))) = Inr () \<and>
   map chunk_number
     (rows (snd (store_chunks_in_db env0 world0 two_items (PyStr (py ''doc.pdf''))
                   (PyStr (py ''Analyst''))))) = [1, 2] \<and>
   map chunk_content_col
     (rows (snd (store_chunks_in_db env0 world0 two_items (PyStr (py ''doc.pdf''))
                   (PyStr (py ''Analyst''))))) = [PyStr (py ''One.''), PyStr (py ''Two.'')]"
proof -
  let ?st = "store_chunks_in_db env0 world0 two_items (PyStr (py ''doc.pdf'')) (PyStr (py ''Analyst''))"
  have h: "list_all (\<lambda>item. map_of item (py ''content'') \<noteq> None) two_items"
    by (simp add: two_items_def py_def)
  from chunk_number_is_position[OF h, of "PyStr (py ''doc.pdf'')" "PyStr (py ''Analyst'')" env0 world0]
  obtain recs where l: "length recs = length two_items"
    and n: "\<forall>i<length two_items. chunk_number (recs ! i) = int i + 1 \<and>
              Some (chunk_content_col (recs ! i)) = map_of (two_items ! i) (py ''content'')"
    and c: "case add_all_fault env0 recs of
              Some (k, e) \<Rightarrow> fst ?st = Inl e \<and> rows (snd ?st) = rows world0
            | None \<Rightarrow>
                (case commit_fault env0 (rows world0) recs of
                   Some e \<Rightarrow> fst ?st = Inl e \<and> rows (snd ?st) = rows world0
                 | None \<Rightarrow> fst ?st = Inr () \<and> rows (snd ?st) = rows world0 @ recs)"
    by blast
  from c have r: "fst ?st = Inr ()" "rows (snd ?st) = recs"
    by (simp_all add: env0_def world0_def)
  have l2: "length recs = 2" using l by (simp add: two_items_def)
  have t: "0 < length two_items" "1 < length two_items" by (simp_all add: two_items_def)
  have "chunk_number (recs ! 0) = 1" "chunk_number (recs ! 1) = 2"
    "chunk_content_col (recs ! 0) = PyStr (py ''One.'')"
    "chunk_content_col (recs ! 1) = PyStr (py ''Two.'')"
    using n[rule_format, OF t(1)] n[rule_format, OF t(2)] by (simp_all add: two_items_def py_def)
  with l2 have "map chunk_number recs = [1, 2]"
    "map chunk_content_col recs = [PyStr (py ''One.''), PyStr (py ''Two.'')]"
    by (cases recs; cases "tl recs"; auto)+
  with h r show ?thesis by simp
qed

section \<open>The orchestrator\<close>

lemma process_document_returns: "fst (process_document env w message) = Inr ()"
  unfolding process_document_def Let_def
  by (simp split: sum.split prod.split)

lemma rows_log_msg: "rows (log_msg lv msg args w) = rows w"
  by (simp add: log_msg_def)

lemma rows_read_file_content: "rows (snd (read_file_content env w file_path)) = rows w"
  unfolding read_file_content_def Let_def
  by (simp add: rows_log_msg split: sum.split)

lemma rows_enrich_loop: "rows (snd (enrich_loop env w enriched i chunks)) = rows w"
proof (induction chunks arbitrary: w enriched i)
  case Nil
  then show ?case by simp
next
  case (Cons c cs)
  show ?case
    by (cases "enrich_try env (length (llm_calls w)) c")
       (simp_all add: Let_def Cons.IH rows_log_msg)
qed

lemma rows_enrich: "rows (snd (enrich_chunks_with_llm env w chunks)) = rows w"
  by (simp add: enrich_chunks_with_llm_def rows_enrich_loop)

lemma message_fields_missing:
  "map_of message (py ''file_path'') = None \<or> map_of message (py ''original_name'') = None \<Longrightarrow>
   \<exists>k. message_fields message = Inl (KeyError k)"
  by (auto simp: message_fields_def dict_item_def split: option.splits)

lemma message_fields_present:
  "map_of message (py ''file_path'') = Some fp \<Longrightarrow>
   map_of message (py ''original_name'') = Some nm \<Longrightarrow>
   message_fields message =
     Inr (fp, nm, dict_get message (py ''role_required'') (PyStr (py ''Analyst'')))"
  by (simp add: message_fields_def dict_item_def)

lemma process_document_rows:
  assumes "message_fields message = Inr (fp, nm, rl)"
  shows "\<exists>recs. rows (snd (process_document env w message)) = rows w @ recs \<and>
           list_all (\<lambda>r. role r = rl \<and> document_name r = nm) recs"
proof -
  let ?w1 = "log_msg INFO ''Started processing'' [ArgVal nm] w"
  obtain r w2 where rd: "read_file_content env ?w1 fp = (r, w2)"
    by (cases "read_file_content env ?w1 fp")
  have w2: "rows w2 = rows w"
    using rows_read_file_content[of env ?w1 fp] rd by (simp add: rows_log_msg)
  show ?thesis
  proof (cases r)
    case (Inl e)
    then have "rows (snd (process_document env w message)) = rows w @ []"
      by (simp add: process_document_def assms rd Let_def rows_log_msg w2)
    then show ?thesis by (intro exI[of _ "[]"]) simp
  next
    case (Inr content)
    note r = this
    let ?w3 = "log_msg INFO ''File content read successfully.'' [] w2"
    show ?thesis
    proof (cases "chunk_content content = []")
      case True
      then have "rows (snd (process_document env w message)) = rows w @ []"
        by (simp add: process_document_def assms rd r Let_def rows_log_msg w2)
      then show ?thesis by (intro exI[of _ "[]"]) simp
    next
      case False
      let ?w4 = "log_msg INFO ''Chunked content into blocks''
                   [ArgInt (int (length (chunk_content content)))] ?w3"
      obtain enriched w5 where en: "enrich_chunks_with_llm env ?w4 (chunk_content content) = (enriched, w5)"
        by (cases "enrich_chunks_with_llm env ?w4 (chunk_content content)")
      have w5: "rows w5 = rows w"
        using rows_enrich[of env ?w4 "chunk_content content"] en by (simp add: rows_log_msg w2)
      let ?w6 = "log_msg INFO ''Enriched chunks with LLM'' [ArgInt (int (length enriched))] w5"
      obtain s w7 where st: "store_chunks_in_db env ?w6 enriched nm rl = (s, w7)"
        by (cases "store_chunks_in_db env ?w6 enriched nm rl")
      from store_rows[of env ?w6 enriched nm rl] st obtain recs where
        recs: "rows w7 = rows w @ recs" "list_all (\<lambda>r. role r = rl \<and> document_name r = nm) recs"
        by (auto simp: rows_log_msg w5)
      have "rows (snd (process_document env w message)) = rows w7"
        by (cases s) (simp_all add: process_document_def assms rd r False Let_def en st rows_log_msg)
      with recs show ?thesis by auto
    qed
  qed
qed

lemmas run_defs =
  process_document_def message_fields_def read_file_content_def chunk_content_def
  enrich_chunks_with_llm_def enrich_try_def store_chunks_in_db_def store_try_def
  SessionLocal_def db_add_all_def db_commit_def db_rollback_def db_close_def log_msg_def
  dict_item_def dict_get_def split_ws_def is_space_def endswith_def strip_def MIN_WORDS_def
  good_response_def fallback_def Let_def py_def

lemma run_ok:
  "process_document env0 world0 msg_ok =
   (Inr (),
    world0\<lparr>logged := [(INFO, ''Started processing'', [ArgVal (PyStr (py ''doc.pdf''))]),
                       (INFO, ''File content read successfully.'', []),
                       (INFO, ''Chunked content into blocks'', [ArgInt 1]),
                       (INFO, ''Enriched chunks with LLM'', [ArgInt 1]),
                       (INFO, ''Stored chunks in database'', [ArgVal (PyStr (py ''doc.pdf''))]),
                       (INFO, ''Completed processing'', [ArgVal (PyStr (py ''doc.pdf''))])],
            file_reads := [PyStr (py ''/data/doc.pdf'')],
            llm_calls := [py ''Hello world.''],
            uuids_drawn := 1,
            rows := [\<lparr>chunk_id = 0, document_name = PyStr (py ''doc.pdf''),
                      role = PyStr (py ''Analyst''), chunk_number = 1,
                      chunk_content_col = PyStr (py ''Hello world.''),
                      keywords_col = PyStr (py ''ai,law,tax''),
                      summary = PyStr (py ''A note.'')\<rparr>],
            sessions_opened := 1, commit_calls := 1\<rparr>)"
  by (simp add: run_defs env0_def world0_def msg_ok_def)

lemma run_no_path:
  "process_document env0 world0 msg_no_path =
   (Inr (),
    world0\<lparr>logged := [(ERROR, ''Missing expected key in message'',
                        [ArgExn (KeyError (py ''file_path''))])]\<rparr>)"
  by (simp add: run_defs env0_def world0_def msg_no_path_def)

text \<open>
  Claim C7. For every message that lacks \<open>file_path\<close> or \<open>original_name\<close>,
  \<open>process_document\<close> returns without raising and leaves the world as it was but for one
  log record: no file is read, the reasoning service is not called, no session is opened
  and no row is written. When both keys are there and \<open>role_required\<close> is not, the role
  is \<open>Analyst\<close>: it is the third field read from the message, and the role of every row
  the run makes visible.
\<close>

theorem missing_key_aborts:
  "(map_of message (py ''file_path'') = None \<or> map_of message (py ''original_name'') = None \<longrightarrow>
      (\<exists>k. process_document env w message =
             (Inr (), w\<lparr>logged := logged w @
                  [(ERROR, ''Missing expected key in message'', [ArgExn (KeyError k)])]\<rparr>)) \<and>
      file_reads (snd (process_document env w message)) = file_reads w \<and>
      llm_calls (snd (process_document env w message)) = llm_calls w \<and>
      rows (snd (process_document env w message)) = rows w \<and>
      staged (snd (process_document env w message)) = staged w \<and>
      sessions_opened (snd (process_document env w message)) = sessions_opened w \<and>
      commit_calls (snd (process_document env w message)) = commit_calls w) \<and>
   (\<forall>fp nm. map_of message (py ''file_path'') = Some fp \<and>
            map_of message (py ''original_name'') = Some nm \<and>
            map_of message (py ''role_required'') = None \<longrightarrow>
      message_fields message = Inr (fp, nm, PyStr (py ''Analyst'')) \<and>
      (\<exists>recs. rows (snd (process_document env w message)) = rows w @ recs \<and>
              list_all (\<lambda>r. role r = PyStr (py ''Analyst'')) recs))"
proof (intro conjI impI allI)
  assume "map_of message (py ''file_path'') = None \<or> map_of message (py ''original_name'') = None"
  then obtain k where k: "message_fields message = Inl (KeyError k)"
    using message_fields_missing by blast
  then have p: "process_document env w message =
      (Inr (), w\<lparr>logged := logged w @
          [(ERROR, ''Missing expected key in message'', [ArgExn (KeyError k)])]\<rparr>)"
    by (simp add: process_document_def log_msg_def)
  then show "\<exists>k. process_document env w message =
      (Inr (), w\<lparr>logged := logged w @
          [(ERROR, ''Missing expected key in message'', [ArgExn (KeyError k)])]\<rparr>)"
    by (rule exI)
  from p show "file_reads (snd (process_document env w message)) = file_reads w"
    and "llm_calls (snd (process_document env w message)) = llm_calls w"
    and "rows (snd (process_document env w message)) = rows w"
    and "staged (snd (process_document env w message)) = staged w"
    and "sessions_opened (snd (process_document env w message)) = sessions_opened w"
    and "commit_calls (snd (process_document env w message)) = commit_calls w"
    by simp_all
next
  fix fp nm
  assume a: "map_of message (py ''file_path'') = Some fp \<and>
      map_of message (py ''original_name'') = Some nm \<and>
      map_of message (py ''role_required'') = None"
  then show m: "message_fields message = Inr (fp, nm, PyStr (py ''Analyst''))"
    by (simp add: message_fields_present dict_get_def)
  from process_document_rows[OF m, of env w]
  show "\<exists>recs. rows (snd (process_document env w message)) = rows w @ recs \<and>
      list_all (\<lambda>r. role r = PyStr (py ''Analyst'')) recs"
    by (auto simp: list_all_iff)
qed

theorem missing_key_aborts_witness:
  "map_of msg_no_path (py ''file_path'') = None \<and>
   process_document env0 world0 msg_no_path =
     (Inr (), world0\<lparr>logged := [(ERROR, ''Missing expected key in message'',
                                  [ArgExn (KeyError (py ''file_path''))])]\<rparr>) \<and>
   file_reads (snd (process_document env0 world0 msg_no_path)) = [] \<and>
   llm_calls (snd (process_document env0 world0 msg_no_path)) = [] \<and>
   rows (snd (process_document env0 world0 msg_no_path)) = [] \<and>
   sessions_opened (snd (process_document env0 world0 msg_no_path)) = 0 \<and>
   map_of msg_ok (py ''role_required'') = None \<and>
   message_fields msg_ok =
     Inr (PyStr (py ''/data/doc.pdf''), PyStr (py ''doc.pdf''), PyStr (py ''Analyst'')) \<and>
   map role (rows (snd (process_document env0 world0 msg_ok))) = [PyStr (py ''Analyst'')]"
proof -
  have h1: "map_of msg_no_path (py ''file_path'') = None \<or>
      map_of msg_no_path (py ''original_name'') = None"
    by (simp add: msg_no_path_def py_def)
  have h2: "map_of msg_ok (py ''file_path'') = Some (PyStr (py ''/data/doc.pdf'')) \<and>
      map_of msg_ok (py ''original_name'') = Some (PyStr (py ''doc.pdf'')) \<and>
      map_of msg_ok (py ''role_required'') = None"
    by (simp add: msg_ok_def py_def)
  note t1 = missing_key_aborts[of msg_no_path env0 world0, THEN conjunct1, rule_format, OF h1]
  note t2 = missing_key_aborts[of msg_ok env0 world0, THEN conjunct2, rule_format, OF h2]
  have w: "file_reads world0 = []" "llm_calls world0 = []" "rows world0 = []"
    "sessions_opened world0 = 0"
    by (simp_all add: world0_def)
  from t1 have a: "file_reads (snd (process_document env0 world0 msg_no_path)) = []"
    "llm_calls (snd (process_document env0 world0 msg_no_path)) = []"
    "rows (snd (process_document env0 world0 msg_no_path)) = []"
    "sessions_opened (snd (process_document env0 world0 msg_no_path)) = 0"
    by (simp_all add: w)
  from t2 have b: "message_fields msg_ok =
     Inr (PyStr (py ''/data/doc.pdf''), PyStr (py ''doc.pdf''), PyStr (py ''Analyst''))"
    by simp
  have c: "map role (rows (snd (process_document env0 world0 msg_ok))) = [PyStr (py ''Analyst'')]"
    by (simp add: run_ok)
  have h1': "map_of msg_no_path (py ''file_path'') = None"
    by (simp add: msg_no_path_def py_def)
  from h1' h2 a b c run_no_path show ?thesis
    by simp
qed

lemma run_commit_fails_read:
  "read_file_content env_commit_fails
     (log_msg INFO ''Started processing'' [ArgVal (PyStr (py ''doc.pdf''))] world0)
     (PyStr (py ''/data/doc.pdf'')) = (Inr (py ''Hello world.'' @ [10]), ce_w2)"
  by (simp add: run_defs env_commit_fails_def env0_def world0_def ce_w2_def)

lemma run_commit_fails_chunks: "chunk_content (py ''Hello world.'' @ [10]) = [py ''Hello world.'']"
  by (simp add: run_defs)

lemma run_commit_fails_enrich:
  "enrich_chunks_with_llm env_commit_fails
     (log_msg INFO ''Chunked content into blocks'' [ArgInt (int (length [py ''Hello world.'']))]
        (log_msg INFO ''File content read successfully.'' [] ce_w2))
     [py ''Hello world.''] = (ce_enriched, ce_w5)"
  by (simp add: run_defs env_commit_fails_def env0_def world0_def ce_w2_def ce_w5_def
      ce_enriched_def)

lemma run_commit_fails_store:
  "store_chunks_in_db env_commit_fails
     (log_msg INFO ''Enriched chunks with LLM'' [ArgInt (int (length ce_enriched))] ce_w5)
     ce_enriched (PyStr (py ''doc.pdf'')) (PyStr (py ''Analyst'')) =
   (Inl (SQLAlchemyError ''connection lost''), ce_w7)"
  by (simp add: run_defs env_commit_fails_def env0_def world0_def ce_w2_def ce_w5_def
      ce_w7_def ce_enriched_def)

text \<open>
  Claim C6 says that a storage failure leaves \<open>process_document\<close> as a raised fault. It
  does not: in the run on \<open>msg_ok\<close> where the commit fails, \<open>store_chunks_in_db\<close> raises
  the \<open>SQLAlchemyError\<close> to \<open>process_document\<close>, whose handler at lines 56 to 58 logs it
  and returns.
\<close>

theorem storage_failure_not_raised:
  "store_chunks_in_db env_commit_fails
     (log_msg INFO ''Enriched chunks with LLM'' [ArgInt (int (length ce_enriched))] ce_w5)
     ce_enriched (PyStr (py ''doc.pdf'')) (PyStr (py ''Analyst'')) =
     (Inl (SQLAlchemyError ''connection lost''), ce_w7) \<and>
   process_document env_commit_fails world0 msg_ok =
     (Inr (),
      ce_w7\<lparr>logged := logged ce_w7 @
         [(ERROR, ''Failed to store chunks'',
           [ArgVal (PyStr (py ''doc.pdf'')), ArgExn (SQLAlchemyError ''connection lost'')])]\<rparr>) \<and>
   fst (process_document env_commit_fails world0 msg_ok) \<noteq> Inl (SQLAlchemyError ''connection lost'')"
proof -
  have "process_document env_commit_fails world0 msg_ok =
     (Inr (),
      ce_w7\<lparr>logged := logged ce_w7 @
         [(ERROR, ''Failed to store chunks'',
           [ArgVal (PyStr (py ''doc.pdf'')), ArgExn (SQLAlchemyError ''connection lost'')])]\<rparr>)"
    by (simp add: run_defs env_commit_fails_def env0_def world0_def msg_ok_def ce_w2_def
        ce_w5_def ce_w7_def)
  then show ?thesis by (simp add: run_commit_fails_store)
qed

text \<open>
  Claim C6, amended. For every message and every outside, \<open>process_document\<close> returns
  without raising: no kind of failure leaves it as a raised fault. A storage failure is
  raised by \<open>store_chunks_in_db\<close> as far as \<open>process_document\<close>, which logs it and returns,
  as it does after a validation or read failure; an enrichment failure never leaves the
  enricher.
\<close>

theorem process_document_never_raises:
  "fst (process_document env w message) = Inr () \<and>
   (\<forall>fp nm rl content w2 enriched w5 e w7.
      message_fields message = Inr (fp, nm, rl) \<and>
      read_file_content env (log_msg INFO ''Started processing'' [ArgVal nm] w) fp
        = (Inr content, w2) \<and>
      chunk_content content \<noteq> [] \<and>
      enrich_chunks_with_llm env
        (log_msg INFO ''Chunked content into blocks'' [ArgInt (int (length (chunk_content content)))]
           (log_msg INFO ''File content read successfully.'' [] w2))
        (chunk_content content) = (enriched, w5) \<and>
      store_chunks_in_db env
        (log_msg INFO ''Enriched chunks with LLM'' [ArgInt (int (length enriched))] w5)
        enriched nm rl = (Inl e, w7) \<longrightarrow>
      process_document env w message =
        (Inr (), log_msg ERROR ''Failed to store chunks'' [ArgVal nm, ArgExn e] w7))"
proof (intro conjI allI impI)
  show "fst (process_document env w message) = Inr ()" by (rule process_document_returns)
next
  fix fp nm rl content w2 enriched w5 e w7
  assume "message_fields message = Inr (fp, nm, rl) \<and>
      read_file_content env (log_msg INFO ''Started processing'' [ArgVal nm] w) fp
        = (Inr content, w2) \<and>
      chunk_content content \<noteq> [] \<and>
      enrich_chunks_with_llm env
        (log_msg INFO ''Chunked content into blocks'' [ArgInt (int (length (chunk_content content)))]
           (log_msg INFO ''File content read successfully.'' [] w2))
        (chunk_content content) = (enriched, w5) \<and>
      store_chunks_in_db env
        (log_msg INFO ''Enriched chunks with LLM'' [ArgInt (int (length enriched))] w5)
        enriched nm rl = (Inl e, w7)"
  then show "process_document env w message =
        (Inr (), log_msg ERROR ''Failed to store chunks'' [ArgVal nm, ArgExn e] w7)"
    by (simp add: process_document_def Let_def)
qed

theorem process_document_never_raises_witness:
  "fst (process_document env_commit_fails world0 msg_ok) = Inr () \<and>
   store_chunks_in_db env_commit_fails
     (log_msg INFO ''Enriched chunks with LLM'' [ArgInt (int (length ce_enriched))] ce_w5)
     ce_enriched (PyStr (py ''doc.pdf'')) (PyStr (py ''Analyst'')) =
     (Inl (SQLAlchemyError ''connection lost''), ce_w7) \<and>
   process_document env_commit_fails world0 msg_ok =
     (Inr (), log_msg ERROR ''Failed to store chunks''
        [ArgVal (PyStr (py ''doc.pdf'')), ArgExn (SQLAlchemyError ''connection lost'')] ce_w7)"
proof -
  note t = process_document_never_raises[of env_commit_fails world0 msg_ok]
  have m: "message_fields msg_ok =
      Inr (PyStr (py ''/data/doc.pdf''), PyStr (py ''doc.pdf''), PyStr (py ''Analyst''))"
    by (simp add: message_fields_def dict_item_def dict_get_def msg_ok_def py_def)
  have c: "chunk_content (py ''Hello world.'' @ [10]) \<noteq> []"
    by (simp add: run_commit_fails_chunks)
  have h: "message_fields msg_ok =
        Inr (PyStr (py ''/data/doc.pdf''), PyStr (py ''doc.pdf''), PyStr (py ''Analyst'')) \<and>
      read_file_content env_commit_fails
        (log_msg INFO ''Started processing'' [ArgVal (PyStr (py ''doc.pdf''))] world0)
        (PyStr (py ''/data/doc.pdf'')) = (Inr (py ''Hello world.'' @ [10]), ce_w2) \<and>
      chunk_content (py ''Hello world.'' @ [10]) \<noteq> [] \<and>
      enrich_chunks_with_llm env_commit_fails
        (log_msg INFO ''Chunked content into blocks''
           [ArgInt (int (length (chunk_content (py ''Hello world.'' @ [10]))))]
           (log_msg INFO ''File content read successfully.'' [] ce_w2))
        (chunk_content (py ''Hello world.'' @ [10])) = (ce_enriched, ce_w5) \<and>
      store_chunks_in_db env_commit_fails
        (log_msg INFO ''Enriched chunks with LLM'' [ArgInt (int (length ce_enriched))] ce_w5)
        ce_enriched (PyStr (py ''doc.pdf'')) (PyStr (py ''Analyst'')) =
        (Inl (SQLAlchemyError ''connection lost''), ce_w7)"
    using m run_commit_fails_read c run_commit_fails_enrich run_commit_fails_store
    by (simp only: run_commit_fails_chunks) simp
  from t[THEN conjunct2, rule_format, OF h] t[THEN conjunct1] run_commit_fails_store
  show ?thesis by simp
qed

end
